theory Spec2Isabelle
  imports Main "HOL-Library.Word"
begin

section \<open>Go values shared by the packages\<close>

text \<open>
  A Go pointer \<open>*T\<close> is \<open>T option\<close> (\<open>None\<close> is \<open>nil\<close>), a slice \<open>[]T\<close> is
  \<open>T list option\<close> (\<open>None\<close> is the nil slice, \<open>Some []\<close> an empty slice that is not nil)
  and a map is a partial function under \<open>option\<close> in the same way. A nil-pointer
  dereference is a run-time panic; it is a value of the model.
\<close>

type_synonym byte = "8 word"
type_synonym bytes = "byte list option"
type_synonym int32 = "32 word"
type_synonym time = int
type_synonym tags = "(string \<rightharpoonup> string option) option"

datatype panic = NilPointerDereference

text \<open>
  An \<open>error\<close> value is never nil; a Go \<open>error\<close> that may be nil is \<open>error option\<close>.
  \<open>Error\<close> is \<open>errors.New\<close>, \<open>Wrapped\<close> is \<open>fmt.Errorf\<close> around another error.
\<close>

datatype error = Error string | Wrapped string error

text \<open>\<open>len(s)\<close> and \<open>range s\<close> treat the nil slice as the empty one.\<close>

definition elems :: "'a list option \<Rightarrow> 'a list" where
  "elems s = (case s of None \<Rightarrow> [] | Some xs \<Rightarrow> xs)"

definition len :: "'a list option \<Rightarrow> nat" where
  "len s = length (elems s)"

text \<open>\<open>make([]*T, n)\<close>: a slice of \<open>n\<close> nil pointers, never the nil slice.\<close>

definition make_slice :: "nat \<Rightarrow> 'a option list" where
  "make_slice n = replicate n None"

text \<open>
  The loop \<open>for j, op := range src { ops[j] = conv(op) }\<close> over a destination \<open>ops\<close>:
  one indexed assignment per element, in order.
\<close>

fun range_assign :: "('a \<Rightarrow> 'b) \<Rightarrow> nat \<Rightarrow> 'a list \<Rightarrow> 'b list \<Rightarrow> 'b list" where
  "range_assign conv j [] ops = ops"
| "range_assign conv j (op # rest) ops = range_assign conv (Suc j) rest (ops[j := conv op])"

section \<open>Package azkeys: models\<close>

subsection \<open>Key properties\<close>

text \<open>
  \<open>generated.KeyAttributes\<close> and \<open>generated.KeyReleasePolicy\<close> are declared in the
  generated package; their fields are the ones \<open>Properties.toGenerated\<close> and
  \<open>ReleasePolicy.toGenerated\<close> fill. \<open>DeletionRecoveryLevel\<close> is a string type.
\<close>

record generated_KeyAttributes =
  ka_Created :: "time option"
  ka_Enabled :: "bool option"
  ka_Expires :: "time option"
  ka_Exportable :: "bool option"
  ka_NotBefore :: "time option"
  ka_RecoverableDays :: "int32 option"
  ka_RecoveryLevel :: "string option"
  ka_Updated :: "time option"

record generated_KeyReleasePolicy =
  krp_ContentType :: "string option"
  krp_EncodedPolicy :: bytes
  krp_Immutable :: "bool option"

record ReleasePolicy =
  rp_ContentType :: "string option"
  rp_EncodedPolicy :: bytes
  rp_Immutable :: "bool option"

record Properties =
  p_CreatedOn :: "time option"
  p_Enabled :: "bool option"
  p_ExpiresOn :: "time option"
  p_Exportable :: "bool option"
  p_ID :: "string option"
  p_Managed :: "bool option"
  p_Name :: "string option"
  p_NotBefore :: "time option"
  p_RecoverableDays :: "int32 option"
  p_RecoveryLevel :: "string option"
  p_ReleasePolicy :: "ReleasePolicy option"
  p_Tags :: tags
  p_UpdatedOn :: "time option"
  p_VaultURL :: "string option"
  p_Version :: "string option"

text \<open>\<open>Properties{}\<close>: every field at its zero value.\<close>

definition Properties_zero :: Properties where
  "Properties_zero =
     \<lparr>p_CreatedOn = None, p_Enabled = None, p_ExpiresOn = None, p_Exportable = None, p_ID = None,
      p_Managed = None, p_Name = None, p_NotBefore = None, p_RecoverableDays = None,
      p_RecoveryLevel = None, p_ReleasePolicy = None, p_Tags = None, p_UpdatedOn = None,
      p_VaultURL = None, p_Version = None\<rparr>"

definition keyReleasePolicyFromGenerated ::
  "generated_KeyReleasePolicy option \<Rightarrow> ReleasePolicy option" where
  "keyReleasePolicyFromGenerated i =
     (case i of
        None \<Rightarrow> None
      | Some g \<Rightarrow>
          Some \<lparr>rp_ContentType = krp_ContentType g,
                rp_EncodedPolicy = krp_EncodedPolicy g,
                rp_Immutable = krp_Immutable g\<rparr>)"

text \<open>
  \<open>keyPropertiesFromGenerated\<close> returns a pointer that is never nil (\<open>Some\<close>), or panics
  at \<open>*i.RecoveryLevel\<close>.
\<close>

definition keyPropertiesFromGenerated ::
  "generated_KeyAttributes option \<Rightarrow> string option \<Rightarrow> string option \<Rightarrow> string option \<Rightarrow>
   bool option \<Rightarrow> string option \<Rightarrow> tags \<Rightarrow> generated_KeyReleasePolicy option \<Rightarrow>
   panic + Properties option" where
  "keyPropertiesFromGenerated i id' name version managed vaultURL tgs releasePolicy =
     (case i of
        None \<Rightarrow> Inr (Some Properties_zero)
      | Some a \<Rightarrow>
          (case ka_RecoveryLevel a of
             None \<Rightarrow> Inl NilPointerDereference
           | Some level \<Rightarrow>
               Inr (Some
                 \<lparr>p_CreatedOn = ka_Created a,
                  p_Enabled = ka_Enabled a,
                  p_ExpiresOn = ka_Expires a,
                  p_Exportable = ka_Exportable a,
                  p_ID = id',
                  p_Managed = managed,
                  p_Name = name,
                  p_NotBefore = ka_NotBefore a,
                  p_RecoverableDays = ka_RecoverableDays a,
                  p_RecoveryLevel = Some level,
                  p_ReleasePolicy = keyReleasePolicyFromGenerated releasePolicy,
                  p_Tags = tgs,
                  p_UpdatedOn = ka_Updated a,
                  p_VaultURL = vaultURL,
                  p_Version = version\<rparr>)))"

subsection \<open>JSON web keys\<close>

text \<open>
  \<open>CurveName\<close>, \<open>KeyType\<close> and \<open>Operation\<close> are string types, as are their generated
  counterparts; a pointer conversion between them keeps the pointer.
\<close>

record JSONWebKey =
  jwk_Crv :: "string option"
  jwk_D :: bytes
  jwk_DP :: bytes
  jwk_DQ :: bytes
  jwk_E :: bytes
  jwk_K :: bytes
  jwk_KeyOps :: "string option list option"
  jwk_ID :: "string option"
  jwk_KeyType :: "string option"
  jwk_N :: bytes
  jwk_P :: bytes
  jwk_Q :: bytes
  jwk_QI :: bytes
  jwk_T :: bytes
  jwk_X :: bytes
  jwk_Y :: bytes

record generated_JSONWebKey =
  g_Crv :: "string option"
  g_D :: bytes
  g_DP :: bytes
  g_DQ :: bytes
  g_E :: bytes
  g_K :: bytes
  g_KeyOps :: "string option list option"
  g_Kid :: "string option"
  g_Kty :: "string option"
  g_N :: bytes
  g_P :: bytes
  g_Q :: bytes
  g_QI :: bytes
  g_T :: bytes
  g_X :: bytes
  g_Y :: bytes

definition JSONWebKey_zero :: JSONWebKey where
  "JSONWebKey_zero =
     \<lparr>jwk_Crv = None, jwk_D = None, jwk_DP = None, jwk_DQ = None, jwk_E = None, jwk_K = None, jwk_KeyOps = None,
      jwk_ID = None, jwk_KeyType = None, jwk_N = None, jwk_P = None, jwk_Q = None, jwk_QI = None, jwk_T = None,
      jwk_X = None, jwk_Y = None\<rparr>"

text \<open>The pointer conversions \<open>(*Operation)(op)\<close> and \<open>(*string)(op)\<close>.\<close>

definition to_Operation :: "string option \<Rightarrow> string option" where
  "to_Operation op = op"

definition to_string :: "string option \<Rightarrow> string option" where
  "to_string op = op"

definition jsonWebKeyFromGenerated :: "generated_JSONWebKey option \<Rightarrow> JSONWebKey option" where
  "jsonWebKeyFromGenerated i =
     (case i of
        None \<Rightarrow> Some JSONWebKey_zero
      | Some g \<Rightarrow>
          (let ops = range_assign to_Operation 0 (elems (g_KeyOps g)) (make_slice (len (g_KeyOps g)))
           in Some
             \<lparr>jwk_Crv = g_Crv g, jwk_D = g_D g, jwk_DP = g_DP g, jwk_DQ = g_DQ g, jwk_E = g_E g, jwk_K = g_K g,
              jwk_KeyOps = Some ops, jwk_ID = g_Kid g, jwk_KeyType = g_Kty g, jwk_N = g_N g, jwk_P = g_P g,
              jwk_Q = g_Q g, jwk_QI = g_QI g, jwk_T = g_T g, jwk_X = g_X g, jwk_Y = g_Y g\<rparr>))"

definition toGenerated :: "JSONWebKey \<Rightarrow> generated_JSONWebKey option" where
  "toGenerated j =
     (let ops = range_assign to_string 0 (elems (jwk_KeyOps j)) (make_slice (len (jwk_KeyOps j)))
      in Some
        \<lparr>g_Crv = jwk_Crv j, g_D = jwk_D j, g_DP = jwk_DP j, g_DQ = jwk_DQ j, g_E = jwk_E j, g_K = jwk_K j,
         g_KeyOps = Some ops, g_Kid = jwk_ID j, g_Kty = jwk_KeyType j, g_N = jwk_N j, g_P = jwk_P j,
         g_Q = jwk_Q j, g_QI = jwk_QI j, g_T = jwk_T j, g_X = jwk_X j, g_Y = jwk_Y j\<rparr>)"

section \<open>net/http responses\<close>

text \<open>
  The body of a response is a stream: its bytes, the error a read of it ends with (if
  any) and the error its \<open>Close\<close> returns (if any). The HTTP client never hands out a
  response whose \<open>Body\<close> is nil.
\<close>

record body =
  b_content :: string
  b_read_err :: "error option"
  b_close_err :: "error option"

record response =
  StatusCode :: int
  Header :: "string \<rightharpoonup> string list"
  Body :: body

text \<open>\<open>Header.Get\<close>: the first value stored under the key, the empty string without one.\<close>

definition Header_Get :: "(string \<rightharpoonup> string list) \<Rightarrow> string \<Rightarrow> string" where
  "Header_Get h key = (case h key of None \<Rightarrow> '''' | Some [] \<Rightarrow> '''' | Some (v # _) \<Rightarrow> v)"

definition StatusOK :: int where "StatusOK = 200"
definition StatusCreated :: int where "StatusCreated = 201"
definition StatusAccepted :: int where "StatusAccepted = 202"
definition StatusNoContent :: int where "StatusNoContent = 204"

section \<open>go-autorest: responders and their decorators\<close>

text \<open>
  The sync-members responders are written with the go-autorest library
  (\<open>autorest.Respond\<close>, \<open>azure.WithErrorUnlessStatusCode\<close>, \<open>autorest.ByUnmarshallingJSON\<close>,
  \<open>autorest.ByClosing\<close>), which is not part of this repository; the definitions below
  follow that library. A responder runs on a response that is not nil and on the value
  \<open>v\<close> a decorator may unmarshal into; it returns both, as it leaves them, with its error.
\<close>

type_synonym 'v responder = "response \<times> 'v \<Rightarrow> (response \<times> 'v) \<times> error option"

fun containsInt :: "int list \<Rightarrow> int \<Rightarrow> bool" where
  "containsInt [] n = False"
| "containsInt (c # cs) n = (if c = n then True else containsInt cs n)"

definition ResponseHasStatusCode :: "response option \<Rightarrow> int list \<Rightarrow> bool" where
  "ResponseHasStatusCode resp codes =
     (case resp of None \<Rightarrow> False | Some r \<Rightarrow> containsInt codes (StatusCode r))"

text \<open>\<open>ioutil.NopCloser\<close> over a buffer holding the bytes of a body.\<close>

definition NopCloser :: "body \<Rightarrow> body" where
  "NopCloser b = \<lparr>b_content = b_content b, b_read_err = None, b_close_err = None\<rparr>"

text \<open>
  \<open>azure.WithErrorUnlessStatusCode\<close>: when the inner responder succeeded and the status
  code is none of \<open>codes\<close>, the body is copied into a buffer that replaces it and an error
  built from the response is returned (a \<open>RequestError\<close>, or a parse error when the body
  cannot be decoded): \<open>errorOf\<close> stands for that construction.
\<close>

definition WithErrorUnlessStatusCode ::
  "(response \<Rightarrow> error) \<Rightarrow> int list \<Rightarrow> 'v responder \<Rightarrow> 'v responder" where
  "WithErrorUnlessStatusCode errorOf codes r s =
     (case r s of
        ((resp, v), err) \<Rightarrow>
          if err = None \<and> \<not> ResponseHasStatusCode (Some resp) codes
          then ((resp\<lparr>Body := NopCloser (Body resp)\<rparr>, v), Some (errorOf resp))
          else ((resp, v), err))"

definition BOM :: string where
  "BOM = [CHR 0xEF, CHR 0xBB, CHR 0xBF]"

fun TrimPrefix :: "string \<Rightarrow> string \<Rightarrow> string" where
  "TrimPrefix s pre = (if take (length pre) s = pre then drop (length pre) s else s)"

text \<open>\<open>strings.Trim(s, " ")\<close>: the spaces at both ends removed.\<close>

definition Trim_spaces :: "string \<Rightarrow> string" where
  "Trim_spaces s =
     rev (dropWhile (\<lambda>c. c = CHR '' '') (rev (dropWhile (\<lambda>c. c = CHR '' '') s)))"

text \<open>
  \<open>autorest.ByUnmarshallingJSON(v)\<close>: after a successful inner responder the body is read;
  a read error is returned, a body that is blank after removing a byte-order mark
  (\<open>body_json\<close>) is skipped, anything else goes to \<open>json.Unmarshal\<close> (\<open>unmarshal\<close>, which
  returns the value as it leaves it and its error).
\<close>

definition body_json :: "response \<Rightarrow> string" where
  "body_json resp = TrimPrefix (b_content (Body resp)) BOM"

definition ByUnmarshallingJSON ::
  "(string \<Rightarrow> 'v \<Rightarrow> 'v \<times> error option) \<Rightarrow> 'v responder \<Rightarrow> 'v responder" where
  "ByUnmarshallingJSON unmarshal r s =
     (case r s of
        ((resp, v), err) \<Rightarrow>
          if err = None then
            (let b = body_json resp in
             case b_read_err (Body resp) of
               Some errInner \<Rightarrow>
                 ((resp, v), Some (Wrapped ''Error occurred reading http.Response#Body'' errInner))
             | None \<Rightarrow>
                 if length (Trim_spaces b) > 0 then
                   (case unmarshal b v of
                      (v', Some errInner) \<Rightarrow>
                        ((resp, v'), Some (Wrapped ''Error occurred unmarshalling JSON'' errInner))
                    | (v', None) \<Rightarrow> ((resp, v'), None))
                 else ((resp, v), None))
          else ((resp, v), err))"

text \<open>\<open>autorest.ByClosing\<close>: the body is closed whatever the inner responder returned.\<close>

definition ByClosing :: "'v responder \<Rightarrow> 'v responder" where
  "ByClosing r s =
     (case r s of
        ((resp, v), err) \<Rightarrow>
          (case b_close_err (Body resp) of
             Some e \<Rightarrow> ((resp, v), Some (Wrapped ''Error closing the response body'' e))
           | None \<Rightarrow> ((resp, v), err)))"

definition DecorateResponder ::
  "'v responder \<Rightarrow> ('v responder \<Rightarrow> 'v responder) list \<Rightarrow> 'v responder" where
  "DecorateResponder r decorators = fold (\<lambda>decorate r. decorate r) decorators r"

definition CreateResponder :: "('v responder \<Rightarrow> 'v responder) list \<Rightarrow> 'v responder" where
  "CreateResponder decorators = DecorateResponder (\<lambda>s. (s, None)) decorators"

text \<open>\<open>autorest.Respond\<close>: a nil response is accepted without running any decorator.\<close>

definition Respond ::
  "response option \<Rightarrow> ('v responder \<Rightarrow> 'v responder) list \<Rightarrow> 'v \<Rightarrow>
   (response option \<times> 'v) \<times> error option" where
  "Respond r decorators v =
     (case r of
        None \<Rightarrow> ((None, v), None)
      | Some resp \<Rightarrow>
          (case CreateResponder decorators (resp, v) of
             ((resp', v'), err) \<Rightarrow> ((Some resp', v'), err)))"

section \<open>Package sql: the sync-members responders\<close>

text \<open>
  \<open>autorest.Response\<close> wraps the response pointer. \<open>SyncMember\<close> is declared in the
  package's models: it embeds \<open>autorest.Response\<close> beside its typed fields, which are the
  parameter \<open>'p\<close> here.
\<close>

record autorest_Response =
  Response :: "response option"

record 'p SyncMember =
  sm_Response :: autorest_Response
  sm_fields :: 'p

definition SyncMember_zero :: "'p \<Rightarrow> 'p SyncMember" where
  "SyncMember_zero z = \<lparr>sm_Response = \<lparr>Response = None\<rparr>, sm_fields = z\<rparr>"

definition CreateOrUpdateResponder ::
  "'p \<Rightarrow> (string \<Rightarrow> 'p SyncMember \<Rightarrow> 'p SyncMember \<times> error option) \<Rightarrow> (response \<Rightarrow> error) \<Rightarrow>
   response option \<Rightarrow> 'p SyncMember \<times> error option" where
  "CreateOrUpdateResponder z unmarshal errorOf resp =
     (case Respond resp
             [WithErrorUnlessStatusCode errorOf [StatusOK, StatusCreated, StatusAccepted],
              ByUnmarshallingJSON unmarshal,
              ByClosing]
             (SyncMember_zero z) of
        ((resp', result), err) \<Rightarrow> (result\<lparr>sm_Response := \<lparr>Response = resp'\<rparr>\<rparr>, err))"

definition DeleteResponder ::
  "(response \<Rightarrow> error) \<Rightarrow> response option \<Rightarrow> autorest_Response \<times> error option" where
  "DeleteResponder errorOf resp =
     (case Respond resp
             [WithErrorUnlessStatusCode errorOf [StatusOK, StatusAccepted, StatusNoContent],
              ByClosing]
             () of
        ((resp', _), err) \<Rightarrow> (\<lparr>Response = resp'\<rparr>, err))"

definition RefreshMemberSchemaResponder ::
  "(response \<Rightarrow> error) \<Rightarrow> response option \<Rightarrow> autorest_Response \<times> error option" where
  "RefreshMemberSchemaResponder errorOf resp =
     (case Respond resp
             [WithErrorUnlessStatusCode errorOf [StatusOK, StatusAccepted],
              ByClosing]
             () of
        ((resp', _), err) \<Rightarrow> (\<lparr>Response = resp'\<rparr>, err))"

section \<open>Package azcertificates: the client\<close>

subsection \<open>Collaborators\<close>

text \<open>
  The client talks to the generated Key Vault client (\<open>c.genClient\<close>), to the package
  \<open>runtime\<close> of azcore and to conversion functions of its own package that are declared
  in other files. Their code is not modelled: they are parameters of
  the model, records of functions. The types they are declared over are type
  variables: \<open>'attr\<close> the generated certificate attributes, \<open>'gpol\<close> the generated
  certificate policy, \<open>'props\<close> the certificate properties, \<open>'pol\<close> the policy and
  \<open>'poller\<close> the poller of \<open>runtime\<close>. A Go call that returns a value with an error
  returns the pair here, the error as \<open>error option\<close>.
\<close>

record request =
  req_method :: string
  req_url :: string

definition MethodGet :: string where
  "MethodGet = ''GET''"

record generated_CertificateAttributes =
  gca_Enabled :: "bool option"

record 'gpol generated_CertificateCreateParameters =
  ccp_CertificatePolicy :: "'gpol option"
  ccp_Tags :: tags
  ccp_CertificateAttributes :: "generated_CertificateAttributes option"

text \<open>
  Of the response of the generated \<open>CreateCertificate\<close> the client reads the field
  \<open>Status\<close> only; of the response of the generated \<open>GetCertificate\<close> the fields below.
\<close>

record generated_CreateCertificateResponse =
  gcr_Status :: "string option"

record ('attr, 'gpol) generated_GetCertificateResponse =
  gg_Attributes :: "'attr option"
  gg_Tags :: tags
  gg_ID :: "string option"
  gg_X509Thumbprint :: bytes
  gg_Cer :: bytes
  gg_ContentType :: "string option"
  gg_Kid :: "string option"
  gg_Sid :: "string option"
  gg_Policy :: "'gpol option"

text \<open>
  Every call of a collaborator is recorded, in order. The calls that send the initiating
  request of a long-running operation are \<open>Call_CreateCertificate\<close>,
  \<open>Call_DeleteCertificate\<close> and \<open>Call_RecoverDeletedCertificate\<close>; a poll request is a
  \<open>Call_Do\<close> (\<open>Pipeline().Do\<close>).
\<close>

datatype 'gpol call =
    Call_CreateCertificate string string "'gpol generated_CertificateCreateParameters"
  | Call_DeleteCertificate string string
  | Call_RecoverDeletedCertificate string string
  | Call_GetCertificate string string string
  | Call_NewRequest string string
  | Call_GetDeletedCertificateCreateRequest string string
  | Call_GetCertificateCreateRequest string string string
  | Call_Do "request option"
  | Call_NewPoller "response option"
  | Call_NewPollerFromResumeToken string

text \<open>
  The generated client. \<open>CreateCertificate\<close>, \<open>DeleteCertificate\<close> and
  \<open>RecoverDeletedCertificate\<close> run under \<open>runtime.WithCaptureResponse(ctx, &rawResp)\<close>:
  the first component of their result is what the call leaves in \<open>rawResp\<close>.
\<close>

record ('attr, 'gpol) generated_KeyVaultClient =
  gen_CreateCertificate ::
    "string \<Rightarrow> string \<Rightarrow> 'gpol generated_CertificateCreateParameters \<Rightarrow>
     response option \<times> generated_CreateCertificateResponse \<times> error option"
  gen_DeleteCertificate :: "string \<Rightarrow> string \<Rightarrow> response option \<times> error option"
  gen_RecoverDeletedCertificate :: "string \<Rightarrow> string \<Rightarrow> response option \<times> error option"
  gen_GetCertificate ::
    "string \<Rightarrow> string \<Rightarrow> string \<Rightarrow> ('attr, 'gpol) generated_GetCertificateResponse \<times> error option"
  gen_GetDeletedCertificateCreateRequest :: "string \<Rightarrow> string \<Rightarrow> request option \<times> error option"
  gen_GetCertificateCreateRequest ::
    "string \<Rightarrow> string \<Rightarrow> string \<Rightarrow> request option \<times> error option"
  gen_Pipeline_Do :: "request option \<Rightarrow> response option \<times> error option"

record ('attr, 'gpol) Client =
  genClient :: "('attr, 'gpol) generated_KeyVaultClient"
  vaultURL :: string

text \<open>
  Package \<open>runtime\<close>: \<open>NewRequest\<close>, and \<open>NewPoller\<close> and \<open>NewPollerFromResumeToken\<close> at the
  handler type \<open>'h\<close> of the operation.
\<close>

record ('h, 'poller) runtime =
  runtime_NewRequest :: "string \<Rightarrow> string \<Rightarrow> request option \<times> error option"
  runtime_NewPoller :: "response option \<Rightarrow> 'h \<Rightarrow> 'poller option \<times> error option"
  runtime_NewPollerFromResumeToken :: "string \<Rightarrow> 'h \<Rightarrow> 'poller option \<times> error option"

text \<open>The conversion functions of the package that other files declare.\<close>

record ('attr, 'gpol, 'props, 'pol) models =
  propertiesFromGenerated :: "'attr option \<Rightarrow> tags \<Rightarrow> string option \<Rightarrow> bytes \<Rightarrow> 'props option"
  certificatePolicyFromGenerated :: "'gpol option \<Rightarrow> 'pol option"
  toGeneratedCertificateCreateParameters :: "'pol \<Rightarrow> 'gpol option"

subsection \<open>Responses and options\<close>

record ('props, 'pol) CertificateWithPolicy =
  cwp_Properties :: "'props option"
  cwp_CER :: bytes
  cwp_ContentType :: "string option"
  cwp_ID :: "string option"
  cwp_KeyID :: "string option"
  cwp_SecretID :: "string option"
  cwp_Policy :: "'pol option"

definition CertificateWithPolicy_zero :: "('props, 'pol) CertificateWithPolicy" where
  "CertificateWithPolicy_zero =
     \<lparr>cwp_Properties = None, cwp_CER = None, cwp_ContentType = None, cwp_ID = None,
      cwp_KeyID = None, cwp_SecretID = None, cwp_Policy = None\<rparr>"

text \<open>
  \<open>GetCertificateResponse\<close> and \<open>CreateCertificateResponse\<close> are two struct types, each
  embedding \<open>CertificateWithPolicy\<close>; the conversion \<open>CreateCertificateResponse(resp)\<close>
  keeps the embedded value.
\<close>

datatype ('props, 'pol) GetCertificateResponse =
  GetCertificateResponse "('props, 'pol) CertificateWithPolicy"

datatype ('props, 'pol) CreateCertificateResponse =
  CreateCertificateResponse "('props, 'pol) CertificateWithPolicy"

definition to_CreateCertificateResponse ::
  "('props, 'pol) GetCertificateResponse \<Rightarrow> ('props, 'pol) CreateCertificateResponse" where
  "to_CreateCertificateResponse resp =
     (case resp of GetCertificateResponse cwp \<Rightarrow> CreateCertificateResponse cwp)"

record GetCertificateOptions =
  gco_Version :: string

record BeginCreateCertificateOptions =
  bcc_Enabled :: "bool option"
  bcc_Tags :: tags
  bcc_ResumeToken :: string

record BeginDeleteCertificateOptions =
  bdc_ResumeToken :: string

record BeginRecoverDeletedCertificateOptions =
  brc_ResumeToken :: string

text \<open>\<open>if options == nil { options = &...Options{} }\<close>, once per options type.\<close>

definition GetCertificateOptions_or_zero :: "GetCertificateOptions option \<Rightarrow> GetCertificateOptions" where
  "GetCertificateOptions_or_zero options =
     (case options of None \<Rightarrow> \<lparr>gco_Version = ''''\<rparr> | Some opts \<Rightarrow> opts)"

definition BeginCreateCertificateOptions_or_zero ::
  "BeginCreateCertificateOptions option \<Rightarrow> BeginCreateCertificateOptions" where
  "BeginCreateCertificateOptions_or_zero options =
     (case options of
        None \<Rightarrow> \<lparr>bcc_Enabled = None, bcc_Tags = None, bcc_ResumeToken = ''''\<rparr>
      | Some opts \<Rightarrow> opts)"

definition BeginDeleteCertificateOptions_or_zero ::
  "BeginDeleteCertificateOptions option \<Rightarrow> BeginDeleteCertificateOptions" where
  "BeginDeleteCertificateOptions_or_zero options =
     (case options of None \<Rightarrow> \<lparr>bdc_ResumeToken = ''''\<rparr> | Some opts \<Rightarrow> opts)"

definition BeginRecoverDeletedCertificateOptions_or_zero ::
  "BeginRecoverDeletedCertificateOptions option \<Rightarrow> BeginRecoverDeletedCertificateOptions" where
  "BeginRecoverDeletedCertificateOptions_or_zero options =
     (case options of None \<Rightarrow> \<lparr>brc_ResumeToken = ''''\<rparr> | Some opts \<Rightarrow> opts)"

text \<open>The parameters \<open>BeginCreateCertificate\<close> sends with the initiating request.\<close>

definition CertificateCreateParameters ::
  "('attr, 'gpol, 'props, 'pol) models \<Rightarrow> 'pol \<Rightarrow> BeginCreateCertificateOptions \<Rightarrow>
   'gpol generated_CertificateCreateParameters" where
  "CertificateCreateParameters m policy options =
     \<lparr>ccp_CertificatePolicy = toGeneratedCertificateCreateParameters m policy,
      ccp_Tags = bcc_Tags options,
      ccp_CertificateAttributes = Some \<lparr>gca_Enabled = bcc_Enabled options\<rparr>\<rparr>"

subsection \<open>GetCertificate\<close>

definition GetCertificate ::
  "('attr, 'gpol, 'props, 'pol) models \<Rightarrow> ('attr, 'gpol) Client \<Rightarrow> string \<Rightarrow>
   GetCertificateOptions option \<Rightarrow>
   (('props, 'pol) GetCertificateResponse \<times> error option) \<times> 'gpol call list" where
  "GetCertificate m c certificateName options =
     (let options = GetCertificateOptions_or_zero options;
          made = [Call_GetCertificate (vaultURL c) certificateName (gco_Version options)]
      in case gen_GetCertificate (genClient c) (vaultURL c) certificateName (gco_Version options) of
           (resp, Some err) \<Rightarrow> ((GetCertificateResponse CertificateWithPolicy_zero, Some err), made)
         | (resp, None) \<Rightarrow>
             ((GetCertificateResponse
                 \<lparr>cwp_Properties =
                    propertiesFromGenerated m (gg_Attributes resp) (gg_Tags resp) (gg_ID resp)
                      (gg_X509Thumbprint resp),
                  cwp_CER = gg_Cer resp,
                  cwp_ContentType = gg_ContentType resp,
                  cwp_ID = gg_ID resp,
                  cwp_KeyID = gg_Kid resp,
                  cwp_SecretID = gg_Sid resp,
                  cwp_Policy = certificatePolicyFromGenerated m (gg_Policy resp)\<rparr>,
               None),
              made))"

subsection \<open>The handlers\<close>

text \<open>
  The handler types \<open>beginCreateCertificateOperation\<close>, \<open>beginDeleteCertificateOperation\<close>
  and \<open>beginRecoverDeletedCertificate\<close> are declared in another file of the package;
  the fields are the ones the client sets. A closure is the function of its arguments
  that its body computes over the variables it captures (\<open>c\<close>, \<open>certificateName\<close>); it
  returns its result with the calls it made.
\<close>

record ('props, 'pol, 'gpol) beginCreateCertificateOperation =
  create_poll :: "string \<Rightarrow> (response option \<times> error option) \<times> 'gpol call list"
  create_result :: "(('props, 'pol) CreateCertificateResponse \<times> error option) \<times> 'gpol call list"
  create_PollURL :: string
  create_Status :: string

record 'gpol beginDeleteCertificateOperation =
  delete_poll :: "(response option \<times> error option) \<times> 'gpol call list"

record 'gpol beginRecoverDeletedCertificate =
  recover_poll :: "(response option \<times> error option) \<times> 'gpol call list"

text \<open>The closure \<open>poll\<close> of \<open>BeginCreateCertificate\<close>.\<close>

definition BeginCreateCertificate_poll ::
  "(string \<Rightarrow> string \<Rightarrow> request option \<times> error option) \<Rightarrow> ('attr, 'gpol) Client \<Rightarrow> string \<Rightarrow>
   (response option \<times> error option) \<times> 'gpol call list" where
  "BeginCreateCertificate_poll NewRequest c endpoint =
     (case NewRequest MethodGet endpoint of
        (req, Some err) \<Rightarrow> ((None, Some err), [Call_NewRequest MethodGet endpoint])
      | (req, None) \<Rightarrow>
          (gen_Pipeline_Do (genClient c) req, [Call_NewRequest MethodGet endpoint, Call_Do req]))"

text \<open>The closure \<open>result\<close> of \<open>BeginCreateCertificate\<close>.\<close>

definition BeginCreateCertificate_result ::
  "('attr, 'gpol, 'props, 'pol) models \<Rightarrow> ('attr, 'gpol) Client \<Rightarrow> string \<Rightarrow>
   (('props, 'pol) CreateCertificateResponse \<times> error option) \<times> 'gpol call list" where
  "BeginCreateCertificate_result m c certificateName =
     (case GetCertificate m c certificateName None of
        ((resp, Some err), made) \<Rightarrow>
          ((CreateCertificateResponse CertificateWithPolicy_zero, Some err), made)
      | ((resp, None), made) \<Rightarrow> ((to_CreateCertificateResponse resp, None), made))"

text \<open>The closure \<open>poll\<close> of \<open>BeginDeleteCertificate\<close>.\<close>

definition BeginDeleteCertificate_poll ::
  "('attr, 'gpol) Client \<Rightarrow> string \<Rightarrow> (response option \<times> error option) \<times> 'gpol call list" where
  "BeginDeleteCertificate_poll c certificateName =
     (case gen_GetDeletedCertificateCreateRequest (genClient c) (vaultURL c) certificateName of
        (req, Some err) \<Rightarrow>
          ((None, Some err), [Call_GetDeletedCertificateCreateRequest (vaultURL c) certificateName])
      | (req, None) \<Rightarrow>
          (gen_Pipeline_Do (genClient c) req,
           [Call_GetDeletedCertificateCreateRequest (vaultURL c) certificateName, Call_Do req]))"

text \<open>The closure \<open>poll\<close> of \<open>BeginRecoverDeletedCertificate\<close>.\<close>

definition BeginRecoverDeletedCertificate_poll ::
  "('attr, 'gpol) Client \<Rightarrow> string \<Rightarrow> (response option \<times> error option) \<times> 'gpol call list" where
  "BeginRecoverDeletedCertificate_poll c certificateName =
     (case gen_GetCertificateCreateRequest (genClient c) (vaultURL c) certificateName '''' of
        (req, Some err) \<Rightarrow>
          ((None, Some err), [Call_GetCertificateCreateRequest (vaultURL c) certificateName ''''])
      | (req, None) \<Rightarrow>
          (gen_Pipeline_Do (genClient c) req,
           [Call_GetCertificateCreateRequest (vaultURL c) certificateName '''', Call_Do req]))"

text \<open>
  The handler each operation builds first: its closures, and every other field at its
  zero value.
\<close>

definition BeginCreateCertificate_handler ::
  "(string \<Rightarrow> string \<Rightarrow> request option \<times> error option) \<Rightarrow>
   ('attr, 'gpol, 'props, 'pol) models \<Rightarrow> ('attr, 'gpol) Client \<Rightarrow> string \<Rightarrow>
   ('props, 'pol, 'gpol) beginCreateCertificateOperation" where
  "BeginCreateCertificate_handler NewRequest m c certificateName =
     \<lparr>create_poll = BeginCreateCertificate_poll NewRequest c,
      create_result = BeginCreateCertificate_result m c certificateName,
      create_PollURL = '''',
      create_Status = ''''\<rparr>"

definition BeginDeleteCertificate_handler ::
  "('attr, 'gpol) Client \<Rightarrow> string \<Rightarrow> 'gpol beginDeleteCertificateOperation" where
  "BeginDeleteCertificate_handler c certificateName =
     \<lparr>delete_poll = BeginDeleteCertificate_poll c certificateName\<rparr>"

definition BeginRecoverDeletedCertificate_handler ::
  "('attr, 'gpol) Client \<Rightarrow> string \<Rightarrow> 'gpol beginRecoverDeletedCertificate" where
  "BeginRecoverDeletedCertificate_handler c certificateName =
     \<lparr>recover_poll = BeginRecoverDeletedCertificate_poll c certificateName\<rparr>"

subsection \<open>The operations that begin a long-running operation\<close>

text \<open>
  A run of such an operation ends by returning the pair of a poller and an error, or by
  a panic; with it come the local variable \<open>handler\<close> as the run leaves it and the calls
  made, in order.
\<close>

datatype 'a outcome = Returns 'a | Panics panic

record ('poller, 'h, 'gpol) run =
  outcome :: "('poller option \<times> error option) outcome"
  handler :: 'h
  calls :: "'gpol call list"

definition BeginCreateCertificate ::
  "(('props, 'pol, 'gpol) beginCreateCertificateOperation, 'poller) runtime \<Rightarrow>
   ('attr, 'gpol, 'props, 'pol) models \<Rightarrow> ('attr, 'gpol) Client \<Rightarrow> string \<Rightarrow> 'pol \<Rightarrow>
   BeginCreateCertificateOptions option \<Rightarrow>
   ('poller, ('props, 'pol, 'gpol) beginCreateCertificateOperation, 'gpol) run" where
  "BeginCreateCertificate rt m c certificateName policy options =
     (let options = BeginCreateCertificateOptions_or_zero options;
          handler0 = BeginCreateCertificate_handler (runtime_NewRequest rt) m c certificateName
      in if bcc_ResumeToken options \<noteq> '''' then
           \<lparr>outcome = Returns (runtime_NewPollerFromResumeToken rt (bcc_ResumeToken options) handler0),
            handler = handler0,
            calls = [Call_NewPollerFromResumeToken (bcc_ResumeToken options)]\<rparr>
         else
           (let params = CertificateCreateParameters m policy options;
                created = [Call_CreateCertificate (vaultURL c) certificateName params]
            in case gen_CreateCertificate (genClient c) (vaultURL c) certificateName params of
                 (rawResp, createResp, Some err) \<Rightarrow>
                   \<lparr>outcome = Returns (None, Some err), handler = handler0, calls = created\<rparr>
               | (None, createResp, None) \<Rightarrow>
                   \<lparr>outcome = Panics NilPointerDereference, handler = handler0, calls = created\<rparr>
               | (Some raw, createResp, None) \<Rightarrow>
                   (let pollURL = Header_Get (Header raw) ''Location''
                    in if pollURL = '''' then
                         \<lparr>outcome = Returns (None, Some (Error ''missing Location header'')),
                          handler = handler0, calls = created\<rparr>
                       else
                         (let handler1 = handler0\<lparr>create_PollURL := pollURL\<rparr>
                          in case gcr_Status createResp of
                               None \<Rightarrow>
                                 \<lparr>outcome = Panics NilPointerDereference, handler = handler1,
                                  calls = created\<rparr>
                             | Some status \<Rightarrow>
                                 (let handler2 = handler1\<lparr>create_Status := status\<rparr>
                                  in \<lparr>outcome = Returns (runtime_NewPoller rt (Some raw) handler2),
                                      handler = handler2,
                                      calls = created @ [Call_NewPoller (Some raw)]\<rparr>)))))"

definition BeginDeleteCertificate ::
  "('gpol beginDeleteCertificateOperation, 'poller) runtime \<Rightarrow> ('attr, 'gpol) Client \<Rightarrow> string \<Rightarrow>
   BeginDeleteCertificateOptions option \<Rightarrow>
   ('poller, 'gpol beginDeleteCertificateOperation, 'gpol) run" where
  "BeginDeleteCertificate rt c certificateName options =
     (let options = BeginDeleteCertificateOptions_or_zero options;
          handler0 = BeginDeleteCertificate_handler c certificateName
      in if bdc_ResumeToken options \<noteq> '''' then
           \<lparr>outcome = Returns (runtime_NewPollerFromResumeToken rt (bdc_ResumeToken options) handler0),
            handler = handler0,
            calls = [Call_NewPollerFromResumeToken (bdc_ResumeToken options)]\<rparr>
         else
           (case gen_DeleteCertificate (genClient c) (vaultURL c) certificateName of
              (rawResp, Some err) \<Rightarrow>
                \<lparr>outcome = Returns (None, Some err), handler = handler0,
                 calls = [Call_DeleteCertificate (vaultURL c) certificateName]\<rparr>
            | (rawResp, None) \<Rightarrow>
                \<lparr>outcome = Returns (runtime_NewPoller rt rawResp handler0),
                 handler = handler0,
                 calls = [Call_DeleteCertificate (vaultURL c) certificateName,
                          Call_NewPoller rawResp]\<rparr>))"

definition BeginRecoverDeletedCertificate ::
  "('gpol beginRecoverDeletedCertificate, 'poller) runtime \<Rightarrow> ('attr, 'gpol) Client \<Rightarrow> string \<Rightarrow>
   BeginRecoverDeletedCertificateOptions option \<Rightarrow>
   ('poller, 'gpol beginRecoverDeletedCertificate, 'gpol) run" where
  "BeginRecoverDeletedCertificate rt c certificateName options =
     (let options = BeginRecoverDeletedCertificateOptions_or_zero options;
          handler0 = BeginRecoverDeletedCertificate_handler c certificateName
      in if brc_ResumeToken options \<noteq> '''' then
           \<lparr>outcome = Returns (runtime_NewPollerFromResumeToken rt (brc_ResumeToken options) handler0),
            handler = handler0,
            calls = [Call_NewPollerFromResumeToken (brc_ResumeToken options)]\<rparr>
         else
           (case gen_RecoverDeletedCertificate (genClient c) (vaultURL c) certificateName of
              (rawResp, Some err) \<Rightarrow>
                \<lparr>outcome = Returns (None, Some err), handler = handler0,
                 calls = [Call_RecoverDeletedCertificate (vaultURL c) certificateName]\<rparr>
            | (rawResp, None) \<Rightarrow>
                \<lparr>outcome = Returns (runtime_NewPoller rt rawResp handler0),
                 handler = handler0,
                 calls = [Call_RecoverDeletedCertificate (vaultURL c) certificateName,
                          Call_NewPoller rawResp]\<rparr>))"

section \<open>The polling engine\<close>

text \<open>
  The poller of package \<open>runtime\<close> (and the future of the management clients) is not
  modelled from code; the client only calls its constructors. The engine below
  follows the design document: its data model, the status extraction, \<open>Poll\<close> and \<open>Done\<close>.
\<close>

text \<open>Modelled from the spec: the enumeration \<open>OperationStatus\<close> of the data model.\<close>

datatype OperationStatus = NotStarted | InProgress | Succeeded | Failed | Canceled

text \<open>
  Modelled from the spec: a raw response is a status code, headers and a body. Of the
  headers the engine reads \<open>Location\<close> and \<open>Retry-After\<close> (seconds); the body is absent
  or malformed (\<open>None\<close>) or is JSON that may carry a \<open>status\<close> field and a \<open>result\<close>.
\<close>

record JsonBody =
  status_field :: "string option"
  result_field :: "string option"

record RawResponse =
  raw_statusCode :: nat
  raw_Location :: "string option"
  raw_RetryAfter :: "nat option"
  raw_body :: "JsonBody option"

text \<open>Modelled from the spec: \<open>PollingMetadata\<close> of the data model.\<close>

record PollingMetadata =
  pollURL :: string
  pollMethod :: string
  status :: OperationStatus
  resourceLocation :: "string option"
  retryAfter :: nat
  backoff :: nat

text \<open>
  Modelled from the spec: the two errors \<open>Poll\<close> surfaces, \<open>TransportError\<close> from the
  collaborator and \<open>ProtocolError\<close> for an unexpected response.
\<close>

datatype poll_error = TransportError string | ProtocolError nat

text \<open>
  Modelled from the spec: the requests the engine sends through its handler, in order.
  What the service answers may depend on everything sent before.
\<close>

datatype engine_request = PollRequest string string | FetchRequest

text \<open>
  Modelled from the spec: the capability set of a handler, \<open>IssuePoll\<close> and
  \<open>FetchFinalResult\<close>, with the typed payload a response carries, if it carries one
  (deserialisation belongs to the handler's kind). \<open>ExtractStatus\<close> reuses the rules of
  status extraction and is the function of that name below.
\<close>

record 'T Handler =
  IssuePoll :: "engine_request list \<Rightarrow> string \<Rightarrow> string \<Rightarrow> string + RawResponse"
  FetchFinalResult :: "engine_request list \<Rightarrow> string + 'T"
  Payload :: "RawResponse \<Rightarrow> 'T option"

text \<open>
  Modelled from the spec: \<open>Poller[T]\<close> owns polling metadata, the cached terminal result
  and a \<open>done\<close> flag (its handler is the parameter of the operations).
\<close>

record 'T Poller =
  metadata :: PollingMetadata
  cached :: "'T option"
  done_flag :: bool

text \<open>Modelled from the spec: the terminal statuses are Succeeded, Failed and Canceled.\<close>

fun terminal :: "OperationStatus \<Rightarrow> bool" where
  "terminal Succeeded = True"
| "terminal Failed = True"
| "terminal Canceled = True"
| "terminal NotStarted = False"
| "terminal InProgress = False"

text \<open>Modelled from the spec: \<open>Done()\<close> is a pure read, true iff the status is terminal.\<close>

definition Done :: "'T Poller \<Rightarrow> bool" where
  "Done p = terminal (status (metadata p))"

text \<open>
  Modelled from the spec: the explicit status field of a body,
  \<open>"Succeeded" | "Failed" | "Canceled" | "InProgress"\<close>; any other body gives none.
\<close>

definition body_status :: "JsonBody option \<Rightarrow> OperationStatus option" where
  "body_status b =
     (case b of
        None \<Rightarrow> None
      | Some j \<Rightarrow>
          (case status_field j of
             None \<Rightarrow> None
           | Some s \<Rightarrow>
               if s = ''Succeeded'' then Some Succeeded
               else if s = ''Failed'' then Some Failed
               else if s = ''Canceled'' then Some Canceled
               else if s = ''InProgress'' then Some InProgress
               else None))"

text \<open>
  Modelled from the spec: status extraction. A 4xx or 5xx answer is a protocol-level
  error; otherwise an explicit status field of the body takes precedence over the status
  code; without one, 200, 201 and 204 mean Succeeded and 202 means InProgress, and a 202
  with neither \<open>Location\<close> nor a usable body, like any other code, is a protocol error.
\<close>

definition ExtractStatus :: "RawResponse \<Rightarrow> poll_error + OperationStatus" where
  "ExtractStatus raw =
     (let code = raw_statusCode raw in
      if 400 \<le> code \<and> code < 600 then Inl (ProtocolError code)
      else
        (case body_status (raw_body raw) of
           Some st \<Rightarrow> Inr st
         | None \<Rightarrow>
             if code = 200 \<or> code = 201 \<or> code = 204 then Inr Succeeded
             else if code = 202 then
               (if raw_Location raw = None \<and> raw_body raw = None then Inl (ProtocolError code)
                else Inr InProgress)
             else Inl (ProtocolError code)))"

text \<open>
  Modelled from the spec: the metadata after a response of status \<open>st\<close>. The next poll URL
  is the \<open>Location\<close> header if present, else the URL polled. On InProgress the retry delay
  is the \<open>Retry-After\<close> header if present, which resets the computed backoff to its
  default of one time unit; otherwise it is the computed backoff, which doubles up to
  the cap \<open>maxBackoff\<close>.
\<close>

definition defaultBackoff :: nat where
  "defaultBackoff = 1"

definition updateMetadata :: "nat \<Rightarrow> PollingMetadata \<Rightarrow> RawResponse \<Rightarrow> OperationStatus \<Rightarrow> PollingMetadata" where
  "updateMetadata maxBackoff md raw st =
     (let md1 = md\<lparr>status := st,
                    pollURL := (case raw_Location raw of Some l \<Rightarrow> l | None \<Rightarrow> pollURL md)\<rparr>
      in if st = InProgress then
           (case raw_RetryAfter raw of
              Some secs \<Rightarrow> md1\<lparr>retryAfter := secs, backoff := defaultBackoff\<rparr>
            | None \<Rightarrow> md1\<lparr>retryAfter := backoff md, backoff := min (2 * backoff md) maxBackoff\<rparr>)
         else md1)"

text \<open>
  Modelled from the spec: \<open>Poll\<close>. A no-op if already done; otherwise the handler
  issues the next request and status extraction is applied to the response. A transport
  or protocol error is surfaced and leaves the poller as it was. Otherwise the metadata
  is updated, and on a terminal status the payload of the response is cached or, if the
  response carries none, \<open>FetchFinalResult\<close> is called at once. The state is the poller
  with the requests sent so far.
\<close>

definition Poll ::
  "nat \<Rightarrow> 'T Handler \<Rightarrow> 'T Poller \<times> engine_request list \<Rightarrow>
   ('T Poller \<times> engine_request list) \<times> poll_error option" where
  "Poll maxBackoff h s =
     (case s of
        (p, sent) \<Rightarrow>
          if Done p then ((p, sent), None)
          else
            (let md = metadata p;
                 sent1 = sent @ [PollRequest (pollMethod md) (pollURL md)]
             in case IssuePoll h sent (pollMethod md) (pollURL md) of
                  Inl failure \<Rightarrow> ((p, sent1), Some (TransportError failure))
                | Inr raw \<Rightarrow>
                    (case ExtractStatus raw of
                       Inl e \<Rightarrow> ((p, sent1), Some e)
                     | Inr st \<Rightarrow>
                         (let p1 = p\<lparr>metadata := updateMetadata maxBackoff md raw st,
                                      done_flag := terminal st\<rparr>
                          in if terminal st then
                               (case Payload h raw of
                                  Some v \<Rightarrow> ((p1\<lparr>cached := Some v\<rparr>, sent1), None)
                                | None \<Rightarrow>
                                    (case FetchFinalResult h sent1 of
                                       Inl failure \<Rightarrow>
                                         ((p1, sent1 @ [FetchRequest]), Some (TransportError failure))
                                     | Inr v \<Rightarrow>
                                         ((p1\<lparr>cached := Some v\<rparr>, sent1 @ [FetchRequest]), None)))
                             else ((p1, sent1), None)))))"

text \<open>
  Modelled from the spec: the future is the poller at the result type of raw responses,
  the terminal response being its payload and \<open>FetchFinalResult\<close> a no-op (it is never
  reached, and sends nothing).
\<close>

definition Future_Handler ::
  "(engine_request list \<Rightarrow> string \<Rightarrow> string \<Rightarrow> string + RawResponse) \<Rightarrow> RawResponse Handler" where
  "Future_Handler issue =
     \<lparr>IssuePoll = issue,
      FetchFinalResult = (\<lambda>sent. Inl ''no typed result''),
      Payload = (\<lambda>raw. Some raw)\<rparr>"

definition Future_Poll ::
  "nat \<Rightarrow> (engine_request list \<Rightarrow> string \<Rightarrow> string \<Rightarrow> string + RawResponse) \<Rightarrow>
   RawResponse Poller \<times> engine_request list \<Rightarrow>
   (RawResponse Poller \<times> engine_request list) \<times> poll_error option" where
  "Future_Poll maxBackoff issue s = Poll maxBackoff (Future_Handler issue) s"

text \<open>
  Modelled from the spec: a caller that calls \<open>Poll\<close> \<open>n\<close> times in a row, whatever each
  call returns.
\<close>

fun Poll_times ::
  "nat \<Rightarrow> 'T Handler \<Rightarrow> nat \<Rightarrow> 'T Poller \<times> engine_request list \<Rightarrow> 'T Poller \<times> engine_request list" where
  "Poll_times maxBackoff h 0 s = s"
| "Poll_times maxBackoff h (Suc n) s = Poll_times maxBackoff h n (fst (Poll maxBackoff h s))"

section \<open>Sample collaborators and inputs\<close>

text \<open>
  Concrete collaborators on which the properties below are evaluated: a response
  without headers and one with a \<open>Location\<close> header, a decoder that behaves as
  \<open>json.Unmarshal\<close> does on the bodies used (\<open>{}\<close> decodes and leaves the value as it
  is, the truncated \<open>{\<close> is rejected, an object with the name of a sync member fills
  the name), a generated client that answers every request with success, and a runtime
  whose pollers are strings.
\<close>

definition sample_response :: "int \<Rightarrow> string \<Rightarrow> response" where
  "sample_response code content =
     \<lparr>StatusCode = code, Header = Map.empty,
      Body = \<lparr>b_content = content, b_read_err = None, b_close_err = None\<rparr>\<rparr>"

definition sample_located :: "int \<Rightarrow> string \<Rightarrow> response" where
  "sample_located code location =
     \<lparr>StatusCode = code, Header = [''Location'' \<mapsto> [location]],
      Body = \<lparr>b_content = ''{}'', b_read_err = None, b_close_err = None\<rparr>\<rparr>"

definition sample_unmarshal :: "string \<Rightarrow> 'v \<Rightarrow> 'v \<times> error option" where
  "sample_unmarshal b v =
     (if b = ''{}'' then (v, None) else (v, Some (Error ''unexpected end of JSON input'')))"

definition sample_member_json :: string where
  "sample_member_json =
     ''{'' @ [CHR 0x22] @ ''name'' @ [CHR 0x22] @ '':'' @ [CHR 0x22] @ ''member1'' @ [CHR 0x22] @ ''}''"

definition sample_unmarshal_member ::
  "string \<Rightarrow> string option SyncMember \<Rightarrow> string option SyncMember \<times> error option" where
  "sample_unmarshal_member b v =
     (if b = sample_member_json then (v\<lparr>sm_fields := Some ''member1''\<rparr>, None)
      else sample_unmarshal b v)"

definition sample_errorOf :: "response \<Rightarrow> error" where
  "sample_errorOf resp = Error ''autorest/azure: Service returned an error''"

definition sample_genClient ::
  "response option \<Rightarrow> string option \<Rightarrow> (unit, unit) generated_KeyVaultClient" where
  "sample_genClient raw st =
     \<lparr>gen_CreateCertificate = (\<lambda>vault name params. (raw, \<lparr>gcr_Status = st\<rparr>, None)),
      gen_DeleteCertificate = (\<lambda>vault name. (raw, None)),
      gen_RecoverDeletedCertificate = (\<lambda>vault name. (raw, None)),
      gen_GetCertificate =
        (\<lambda>vault name version.
           (\<lparr>gg_Attributes = Some (), gg_Tags = None, gg_ID = Some (vault @ ''/certificates/'' @ name),
             gg_X509Thumbprint = None, gg_Cer = Some [1, 2, 3], gg_ContentType = None,
             gg_Kid = None, gg_Sid = None, gg_Policy = Some ()\<rparr>,
            None)),
      gen_GetDeletedCertificateCreateRequest =
        (\<lambda>vault name.
           (Some \<lparr>req_method = ''GET'', req_url = vault @ ''/deletedcertificates/'' @ name\<rparr>, None)),
      gen_GetCertificateCreateRequest =
        (\<lambda>vault name version.
           (Some \<lparr>req_method = ''GET'', req_url = vault @ ''/certificates/'' @ name @ ''/'' @ version\<rparr>,
            None)),
      gen_Pipeline_Do = (\<lambda>req. (Some (sample_response 200 ''{}''), None))\<rparr>"

definition sample_Client :: "response option \<Rightarrow> string option \<Rightarrow> (unit, unit) Client" where
  "sample_Client raw st = \<lparr>genClient = sample_genClient raw st, vaultURL = ''https://vault''\<rparr>"

definition generated_GetCertificateResponse_zero ::
  "(unit, unit) generated_GetCertificateResponse" where
  "generated_GetCertificateResponse_zero =
     \<lparr>gg_Attributes = None, gg_Tags = None, gg_ID = None, gg_X509Thumbprint = None,
      gg_Cer = None, gg_ContentType = None, gg_Kid = None, gg_Sid = None, gg_Policy = None\<rparr>"

text \<open>A client whose \<open>GetCertificate\<close> fails.\<close>

definition sample_Client_failing :: "(unit, unit) Client" where
  "sample_Client_failing =
     \<lparr>genClient =
        (sample_genClient None None)
          \<lparr>gen_GetCertificate :=
             (\<lambda>vault name version.
                (generated_GetCertificateResponse_zero, Some (Error ''CertificateNotFound'')))\<rparr>,
      vaultURL = ''https://vault''\<rparr>"

definition sample_runtime :: "('h, string) runtime" where
  "sample_runtime =
     \<lparr>runtime_NewRequest = (\<lambda>method endpoint. (Some \<lparr>req_method = method, req_url = endpoint\<rparr>, None)),
      runtime_NewPoller = (\<lambda>raw h. (Some ''poller'', None)),
      runtime_NewPollerFromResumeToken = (\<lambda>token h. (Some (''resumed from '' @ token), None))\<rparr>"

definition sample_models :: "(unit, unit, unit, unit) models" where
  "sample_models =
     \<lparr>propertiesFromGenerated = (\<lambda>attributes tgs id' thumbprint. Some ()),
      certificatePolicyFromGenerated = (\<lambda>policy. policy),
      toGeneratedCertificateCreateParameters = (\<lambda>policy. Some policy)\<rparr>"

definition sample_create_options :: "string \<Rightarrow> BeginCreateCertificateOptions" where
  "sample_create_options token = \<lparr>bcc_Enabled = Some True, bcc_Tags = None, bcc_ResumeToken = token\<rparr>"

text \<open>
  Modelled from the spec: a poller in the given status and a handler whose service
  answers every poll with 200 and the body status Succeeded.
\<close>

definition sample_Poller :: "OperationStatus \<Rightarrow> 'T Poller" where
  "sample_Poller st =
     \<lparr>metadata = \<lparr>pollURL = ''/op/1'', pollMethod = ''GET'', status = st, resourceLocation = None,
                   retryAfter = 0, backoff = 1\<rparr>,
      cached = None, done_flag = terminal st\<rparr>"

definition sample_issue :: "engine_request list \<Rightarrow> string \<Rightarrow> string \<Rightarrow> string + RawResponse" where
  "sample_issue sent method url =
     Inr \<lparr>raw_statusCode = 200, raw_Location = None, raw_RetryAfter = None,
          raw_body = Some \<lparr>status_field = Some ''Succeeded'', result_field = Some ''abc''\<rparr>\<rparr>"

definition sample_Handler :: "string Handler" where
  "sample_Handler =
     \<lparr>IssuePoll = sample_issue,
      FetchFinalResult = (\<lambda>sent. Inr ''abc''),
      Payload = (\<lambda>raw. case raw_body raw of None \<Rightarrow> None | Some j \<Rightarrow> result_field j)\<rparr>"

section \<open>Properties of the azkeys conversions\<close>

lemma range_assign_length: "length (range_assign conv j xs ops) = length ops"
  by (induction xs arbitrary: j ops) simp_all

lemma range_assign_take_map:
  "length ops = j + length xs \<Longrightarrow> range_assign conv j xs ops = take j ops @ map conv xs"
proof (induction xs arbitrary: j ops)
  case Nil
  then show ?case by simp
next
  case (Cons x xs)
  have len: "length (ops[j := conv x]) = Suc j + length xs"
    using Cons.prems by simp
  have jlt: "j < length ops"
    using Cons.prems by simp
  have "range_assign conv j (x # xs) ops = take (Suc j) (ops[j := conv x]) @ map conv xs"
    using Cons.IH [OF len] by simp
  also have "take (Suc j) (ops[j := conv x]) = take j ops @ [conv x]"
    using jlt by (simp add: take_Suc_conv_app_nth)
  finally show ?case by simp
qed

lemma range_assign_make_slice: "range_assign conv 0 xs (make_slice (length xs)) = map conv xs"
  using range_assign_take_map [of "make_slice (length xs)" 0 xs conv] by (simp add: make_slice_def)

lemma roundtrip_KeyOps:
  "range_assign to_Operation 0
     (elems (Some (range_assign to_string 0 (elems s) (make_slice (len s)))))
     (make_slice (len (Some (range_assign to_string 0 (elems s) (make_slice (len s))))))
   = elems s"
proof -
  let ?xs = "elems s"
  have there: "range_assign to_string 0 ?xs (make_slice (len s)) = map to_string ?xs"
    unfolding len_def by (rule range_assign_make_slice)
  have again:
    "range_assign to_Operation 0 (map to_string ?xs) (make_slice (length (map to_string ?xs)))
       = map to_Operation (map to_string ?xs)"
    by (rule range_assign_make_slice)
  have "map to_Operation (map to_string ?xs) = ?xs"
    by (simp add: to_Operation_def to_string_def comp_def)
  with there again show ?thesis
    by (simp add: len_def elems_def)
qed

text \<open>
  C9. \<open>keyPropertiesFromGenerated\<close> returns (a pointer that is not nil) exactly when its
  argument is nil or has a \<open>RecoveryLevel\<close> that is not nil; for a nil argument it
  returns the empty \<open>Properties\<close>; for every argument that is not nil and has a nil
  \<open>RecoveryLevel\<close> the dereference panics, and there is such an argument.
\<close>

theorem keyPropertiesFromGenerated_total:
  "((i = None \<or> (\<exists>a. i = Some a \<and> ka_RecoveryLevel a \<noteq> None)) \<longleftrightarrow>
      (\<exists>p. keyPropertiesFromGenerated i id' name version managed vaultURL' tgs releasePolicy
             = Inr (Some p)))
   \<and> keyPropertiesFromGenerated None id' name version managed vaultURL' tgs releasePolicy
        = Inr (Some Properties_zero)
   \<and> (\<forall>a. ka_RecoveryLevel a = None \<longrightarrow>
         keyPropertiesFromGenerated (Some a) id' name version managed vaultURL' tgs releasePolicy
           = Inl NilPointerDereference)
   \<and> (\<exists>a. keyPropertiesFromGenerated (Some a) id' name version managed vaultURL' tgs releasePolicy
           = Inl NilPointerDereference)"
proof -
  let ?f = "\<lambda>i. keyPropertiesFromGenerated i id' name version managed vaultURL' tgs releasePolicy"
  have nil: "?f None = Inr (Some Properties_zero)"
    by (simp add: keyPropertiesFromGenerated_def)
  have panics: "ka_RecoveryLevel a = None \<Longrightarrow> ?f (Some a) = Inl NilPointerDereference" for a
    by (simp add: keyPropertiesFromGenerated_def)
  have returns: "ka_RecoveryLevel a \<noteq> None \<Longrightarrow> \<exists>p. ?f (Some a) = Inr (Some p)" for a
    by (auto simp: keyPropertiesFromGenerated_def)
  have total:
    "(i = None \<or> (\<exists>a. i = Some a \<and> ka_RecoveryLevel a \<noteq> None)) \<longleftrightarrow> (\<exists>p. ?f i = Inr (Some p))"
  proof (cases i)
    case None
    then show ?thesis using nil by simp
  next
    case (Some a)
    show ?thesis
    proof (cases "ka_RecoveryLevel a")
      case None
      then show ?thesis using panics [of a] Some by simp
    next
      case (Some level)
      then show ?thesis using returns [of a] \<open>i = Some a\<close> by simp
    qed
  qed
  let ?a0 = "\<lparr>ka_Created = None, ka_Enabled = None, ka_Expires = None, ka_Exportable = None,
              ka_NotBefore = None, ka_RecoverableDays = None, ka_RecoveryLevel = None,
              ka_Updated = None\<rparr>"
  have ex: "\<exists>a. ?f (Some a) = Inl NilPointerDereference"
    using panics [of ?a0] by (intro exI [of _ ?a0]) simp
  show ?thesis using nil panics total ex by blast
qed

theorem keyPropertiesFromGenerated_total_witness:
  "ka_RecoveryLevel
     \<lparr>ka_Created = None, ka_Enabled = Some True, ka_Expires = None, ka_Exportable = None,
      ka_NotBefore = None, ka_RecoverableDays = Some 90, ka_RecoveryLevel = Some ''Recoverable'',
      ka_Updated = None\<rparr> \<noteq> None
   \<and> (\<exists>p. keyPropertiesFromGenerated
            (Some \<lparr>ka_Created = None, ka_Enabled = Some True, ka_Expires = None,
                   ka_Exportable = None, ka_NotBefore = None, ka_RecoverableDays = Some 90,
                   ka_RecoveryLevel = Some ''Recoverable'', ka_Updated = None\<rparr>)
            (Some ''id'') (Some ''key'') None None None None None = Inr (Some p))
   \<and> ka_RecoveryLevel
       \<lparr>ka_Created = None, ka_Enabled = Some True, ka_Expires = None, ka_Exportable = None,
        ka_NotBefore = None, ka_RecoverableDays = Some 90, ka_RecoveryLevel = None,
        ka_Updated = None\<rparr> = None
   \<and> keyPropertiesFromGenerated
        (Some \<lparr>ka_Created = None, ka_Enabled = Some True, ka_Expires = None,
               ka_Exportable = None, ka_NotBefore = None, ka_RecoverableDays = Some 90,
               ka_RecoveryLevel = None, ka_Updated = None\<rparr>)
        (Some ''id'') (Some ''key'') None None None None None = Inl NilPointerDereference"
  using keyPropertiesFromGenerated_total
    [of "Some \<lparr>ka_Created = None, ka_Enabled = Some True, ka_Expires = None,
               ka_Exportable = None, ka_NotBefore = None, ka_RecoverableDays = Some 90,
               ka_RecoveryLevel = Some ''Recoverable'', ka_Updated = None\<rparr>"
        "Some ''id''" "Some ''key''" None None None None None]
  by simp

text \<open>
  C10, as stated, fails: the zero \<open>JSONWebKey\<close> has the nil slice as \<open>KeyOps\<close>, and the
  round trip brings back an empty slice that is not nil.
\<close>

theorem jsonWebKey_roundtrip_counterexample:
  "jsonWebKeyFromGenerated (toGenerated JSONWebKey_zero) \<noteq> Some JSONWebKey_zero"
  by (simp add: jsonWebKeyFromGenerated_def toGenerated_def Let_def JSONWebKey_zero_def
      elems_def len_def make_slice_def)

text \<open>
  C10, amended. For every \<open>JSONWebKey\<close> \<open>j\<close> the round trip gives \<open>j\<close> back in every
  field but \<open>KeyOps\<close>, which comes back as a slice that is not nil with the elements of
  the one of \<open>j\<close>, in order; so the round trip gives \<open>j\<close> itself whenever the \<open>KeyOps\<close> of
  \<open>j\<close> is not the nil slice.
\<close>

theorem jsonWebKey_roundtrip:
  "jsonWebKeyFromGenerated (toGenerated j) = Some (j\<lparr>jwk_KeyOps := Some (elems (jwk_KeyOps j))\<rparr>)
   \<and> (jwk_KeyOps j \<noteq> None \<longrightarrow> jsonWebKeyFromGenerated (toGenerated j) = Some j)"
proof -
  have eq: "jsonWebKeyFromGenerated (toGenerated j)
              = Some (j\<lparr>jwk_KeyOps := Some (elems (jwk_KeyOps j))\<rparr>)"
    using roundtrip_KeyOps [of "jwk_KeyOps j"]
    by (simp add: jsonWebKeyFromGenerated_def toGenerated_def Let_def)
  have "jwk_KeyOps j \<noteq> None \<Longrightarrow> j\<lparr>jwk_KeyOps := Some (elems (jwk_KeyOps j))\<rparr> = j"
    by (auto simp: elems_def)
  with eq show ?thesis by simp
qed

theorem jsonWebKey_roundtrip_witness:
  "jwk_KeyOps (JSONWebKey_zero\<lparr>jwk_KeyOps := Some [Some ''sign'', None], jwk_N := Some [1, 0, 1]\<rparr>)
     \<noteq> None
   \<and> jsonWebKeyFromGenerated
       (toGenerated (JSONWebKey_zero\<lparr>jwk_KeyOps := Some [Some ''sign'', None], jwk_N := Some [1, 0, 1]\<rparr>))
     = Some (JSONWebKey_zero\<lparr>jwk_KeyOps := Some [Some ''sign'', None], jwk_N := Some [1, 0, 1]\<rparr>)"
  using jsonWebKey_roundtrip
    [of "JSONWebKey_zero\<lparr>jwk_KeyOps := Some [Some ''sign'', None], jwk_N := Some [1, 0, 1]\<rparr>"]
  by (simp add: JSONWebKey_zero_def elems_def)

section \<open>Properties of the sync-members responders\<close>

lemma containsInt_set: "containsInt cs n \<longleftrightarrow> n \<in> set cs"
  by (induction cs) auto

lemma Respond_status_closing:
  "Respond (Some resp) [WithErrorUnlessStatusCode errorOf codes, ByClosing] v =
     (if StatusCode resp \<in> set codes
      then ((Some resp, v),
            map_option (Wrapped ''Error closing the response body'') (b_close_err (Body resp)))
      else ((Some (resp\<lparr>Body := NopCloser (Body resp)\<rparr>), v), Some (errorOf resp)))"
  by (simp add: Respond_def CreateResponder_def DecorateResponder_def ByClosing_def
      WithErrorUnlessStatusCode_def ResponseHasStatusCode_def containsInt_set NopCloser_def
      split: option.splits)

lemma Respond_status_json_closing:
  "Respond (Some resp)
     [WithErrorUnlessStatusCode errorOf codes, ByUnmarshallingJSON unmarshal, ByClosing] v =
     (if StatusCode resp \<in> set codes then
        (case b_read_err (Body resp) of
           Some e \<Rightarrow>
             ((Some resp, v),
              (case b_close_err (Body resp) of
                 Some ce \<Rightarrow> Some (Wrapped ''Error closing the response body'' ce)
               | None \<Rightarrow> Some (Wrapped ''Error occurred reading http.Response#Body'' e)))
         | None \<Rightarrow>
             (if Trim_spaces (body_json resp) = [] then
                ((Some resp, v),
                 map_option (Wrapped ''Error closing the response body'') (b_close_err (Body resp)))
              else
                ((Some resp, fst (unmarshal (body_json resp) v)),
                 (case b_close_err (Body resp) of
                    Some ce \<Rightarrow> Some (Wrapped ''Error closing the response body'' ce)
                  | None \<Rightarrow>
                      map_option (Wrapped ''Error occurred unmarshalling JSON'')
                        (snd (unmarshal (body_json resp) v))))))
      else ((Some (resp\<lparr>Body := NopCloser (Body resp)\<rparr>), v), Some (errorOf resp)))"
  by (simp add: Respond_def CreateResponder_def DecorateResponder_def ByClosing_def
      ByUnmarshallingJSON_def WithErrorUnlessStatusCode_def ResponseHasStatusCode_def
      containsInt_set NopCloser_def Let_def
      split: option.splits prod.splits)

lemma DeleteResponder_Some:
  "DeleteResponder errorOf (Some resp) =
     (if StatusCode resp \<in> {200, 202, 204}
      then (\<lparr>Response = Some resp\<rparr>,
            map_option (Wrapped ''Error closing the response body'') (b_close_err (Body resp)))
      else (\<lparr>Response = Some (resp\<lparr>Body := NopCloser (Body resp)\<rparr>)\<rparr>, Some (errorOf resp)))"
  unfolding DeleteResponder_def Respond_status_closing
  by (simp add: StatusOK_def StatusAccepted_def StatusNoContent_def)

lemma RefreshMemberSchemaResponder_Some:
  "RefreshMemberSchemaResponder errorOf (Some resp) =
     (if StatusCode resp \<in> {200, 202}
      then (\<lparr>Response = Some resp\<rparr>,
            map_option (Wrapped ''Error closing the response body'') (b_close_err (Body resp)))
      else (\<lparr>Response = Some (resp\<lparr>Body := NopCloser (Body resp)\<rparr>)\<rparr>, Some (errorOf resp)))"
  unfolding RefreshMemberSchemaResponder_def Respond_status_closing
  by (simp add: StatusOK_def StatusAccepted_def)

lemma CreateOrUpdateResponder_rejected:
  "StatusCode resp \<notin> {200, 201, 202} \<Longrightarrow>
   CreateOrUpdateResponder z unmarshal errorOf (Some resp) =
     ((SyncMember_zero z)\<lparr>sm_Response := \<lparr>Response = Some (resp\<lparr>Body := NopCloser (Body resp)\<rparr>)\<rparr>\<rparr>,
      Some (errorOf resp))"
  unfolding CreateOrUpdateResponder_def Respond_status_json_closing
  by (simp add: StatusOK_def StatusCreated_def StatusAccepted_def)

lemma CreateOrUpdateResponder_accepted:
  "StatusCode resp \<in> {200, 201, 202} \<Longrightarrow>
   CreateOrUpdateResponder z unmarshal errorOf (Some resp) =
     (case b_read_err (Body resp) of
        Some e \<Rightarrow>
          ((SyncMember_zero z)\<lparr>sm_Response := \<lparr>Response = Some resp\<rparr>\<rparr>,
           (case b_close_err (Body resp) of
              Some ce \<Rightarrow> Some (Wrapped ''Error closing the response body'' ce)
            | None \<Rightarrow> Some (Wrapped ''Error occurred reading http.Response#Body'' e)))
      | None \<Rightarrow>
          (if Trim_spaces (body_json resp) = [] then
             ((SyncMember_zero z)\<lparr>sm_Response := \<lparr>Response = Some resp\<rparr>\<rparr>,
              map_option (Wrapped ''Error closing the response body'') (b_close_err (Body resp)))
           else
             ((fst (unmarshal (body_json resp) (SyncMember_zero z)))
                \<lparr>sm_Response := \<lparr>Response = Some resp\<rparr>\<rparr>,
              (case b_close_err (Body resp) of
                 Some ce \<Rightarrow> Some (Wrapped ''Error closing the response body'' ce)
               | None \<Rightarrow>
                   map_option (Wrapped ''Error occurred unmarshalling JSON'')
                     (snd (unmarshal (body_json resp) (SyncMember_zero z)))))))"
  unfolding CreateOrUpdateResponder_def Respond_status_json_closing
  by (simp add: StatusOK_def StatusCreated_def StatusAccepted_def split: option.splits)

text \<open>
  C7, as stated, fails: \<open>CreateOrUpdateResponder\<close> on a response with the accepted status
  code 200 whose body is the truncated JSON \<open>{\<close> returns the error of the decoder.
\<close>

theorem CreateOrUpdateResponder_error_counterexample:
  "StatusCode (sample_response 200 ''{'') \<in> {200, 201, 202}
   \<and> snd (CreateOrUpdateResponder () sample_unmarshal sample_errorOf
            (Some (sample_response 200 ''{'')))
     = Some (Wrapped ''Error occurred unmarshalling JSON'' (Error ''unexpected end of JSON input''))"
proof -
  let ?r = "sample_response 200 ''{''"
  have code: "StatusCode ?r \<in> {200, 201, 202}"
    by (simp add: sample_response_def)
  have json: "body_json ?r = ''{''"
    by (simp add: body_json_def sample_response_def BOM_def)
  have body: "b_read_err (Body ?r) = None" "b_close_err (Body ?r) = None"
    by (simp_all add: sample_response_def)
  have nonblank: "Trim_spaces ''{'' \<noteq> []"
    by (simp add: Trim_spaces_def)
  have rejected: "snd (sample_unmarshal ''{'' (SyncMember_zero ()))
                    = Some (Error ''unexpected end of JSON input'')"
    by (simp add: sample_unmarshal_def)
  have "snd (CreateOrUpdateResponder () sample_unmarshal sample_errorOf (Some ?r))
          = Some (Wrapped ''Error occurred unmarshalling JSON''
                    (Error ''unexpected end of JSON input''))"
    unfolding CreateOrUpdateResponder_accepted [OF code]
    by (simp add: json body nonblank rejected)
  with code show ?thesis by simp
qed

text \<open>
  C7, amended. On a response that is not nil each responder returns an error whenever
  the status code is outside its accepted set (200, 201, 202 for \<open>CreateOrUpdateResponder\<close>;
  200, 202, 204 for \<open>DeleteResponder\<close>; 200, 202 for \<open>RefreshMemberSchemaResponder\<close>). With
  an accepted code it returns a nil error exactly when handling the body raises none:
  closing it succeeds and, for \<open>CreateOrUpdateResponder\<close>, reading it succeeds and the
  body is blank or unmarshals.
\<close>

theorem responders_nil_error:
  "(snd (CreateOrUpdateResponder z unmarshal errorOf (Some resp)) = None \<longleftrightarrow>
      StatusCode resp \<in> {200, 201, 202} \<and> b_read_err (Body resp) = None
      \<and> b_close_err (Body resp) = None
      \<and> (Trim_spaces (body_json resp) = []
         \<or> snd (unmarshal (body_json resp) (SyncMember_zero z)) = None))
   \<and> (snd (DeleteResponder errorOf (Some resp)) = None \<longleftrightarrow>
        StatusCode resp \<in> {200, 202, 204} \<and> b_close_err (Body resp) = None)
   \<and> (snd (RefreshMemberSchemaResponder errorOf (Some resp)) = None \<longleftrightarrow>
        StatusCode resp \<in> {200, 202} \<and> b_close_err (Body resp) = None)"
proof -
  have create:
    "snd (CreateOrUpdateResponder z unmarshal errorOf (Some resp)) = None \<longleftrightarrow>
       StatusCode resp \<in> {200, 201, 202} \<and> b_read_err (Body resp) = None
       \<and> b_close_err (Body resp) = None
       \<and> (Trim_spaces (body_json resp) = []
          \<or> snd (unmarshal (body_json resp) (SyncMember_zero z)) = None)"
  proof (cases "StatusCode resp \<in> {200, 201, 202}")
    case True
    show ?thesis
      unfolding CreateOrUpdateResponder_accepted [OF True]
      using True by (auto split: option.splits)
  next
    case False
    show ?thesis
      unfolding CreateOrUpdateResponder_rejected [OF False]
      using False by simp
  qed
  have delete:
    "snd (DeleteResponder errorOf (Some resp)) = None \<longleftrightarrow>
       StatusCode resp \<in> {200, 202, 204} \<and> b_close_err (Body resp) = None"
    unfolding DeleteResponder_Some by simp
  have refresh:
    "snd (RefreshMemberSchemaResponder errorOf (Some resp)) = None \<longleftrightarrow>
       StatusCode resp \<in> {200, 202} \<and> b_close_err (Body resp) = None"
    unfolding RefreshMemberSchemaResponder_Some by simp
  from create delete refresh show ?thesis by blast
qed

theorem responders_nil_error_witness:
  "snd (CreateOrUpdateResponder () sample_unmarshal sample_errorOf (Some (sample_response 201 ''{}'')))
     = None
   \<and> snd (DeleteResponder sample_errorOf (Some (sample_response 204 ''''))) = None
   \<and> snd (RefreshMemberSchemaResponder sample_errorOf (Some (sample_response 204 ''''))) \<noteq> None"
proof -
  have json: "body_json (sample_response 201 ''{}'') = ''{}''"
    by (simp add: body_json_def sample_response_def BOM_def)
  have create:
    "snd (CreateOrUpdateResponder () sample_unmarshal sample_errorOf
            (Some (sample_response 201 ''{}''))) = None"
    using responders_nil_error [of "()" sample_unmarshal sample_errorOf "sample_response 201 ''{}''"]
    by (simp add: json sample_unmarshal_def) (simp add: sample_response_def)
  have others:
    "snd (DeleteResponder sample_errorOf (Some (sample_response 204 ''''))) = None
     \<and> snd (RefreshMemberSchemaResponder sample_errorOf (Some (sample_response 204 ''''))) \<noteq> None"
    using responders_nil_error [of "()" sample_unmarshal sample_errorOf "sample_response 204 ''''"]
    by (simp add: sample_response_def)
  from create others show ?thesis by simp
qed

text \<open>
  C8. \<open>DeleteResponder\<close> and \<open>RefreshMemberSchemaResponder\<close> return, beside the error, the
  response they were given and nothing else (after a rejected status code its body is
  the buffered copy the error was read from); \<open>CreateOrUpdateResponder\<close> returns the
  \<open>SyncMember\<close> that the body was unmarshalled into, with the response in it.
\<close>

theorem responders_results:
  "fst (DeleteResponder errorOf None) = \<lparr>Response = None\<rparr>
   \<and> fst (RefreshMemberSchemaResponder errorOf None) = \<lparr>Response = None\<rparr>
   \<and> fst (DeleteResponder errorOf (Some resp))
       = \<lparr>Response = Some (if StatusCode resp \<in> {200, 202, 204} then resp
                            else resp\<lparr>Body := NopCloser (Body resp)\<rparr>)\<rparr>
   \<and> fst (RefreshMemberSchemaResponder errorOf (Some resp))
       = \<lparr>Response = Some (if StatusCode resp \<in> {200, 202} then resp
                            else resp\<lparr>Body := NopCloser (Body resp)\<rparr>)\<rparr>
   \<and> (StatusCode resp \<in> {200, 201, 202} \<and> b_read_err (Body resp) = None
        \<and> Trim_spaces (body_json resp) \<noteq> [] \<longrightarrow>
      fst (CreateOrUpdateResponder z unmarshal errorOf (Some resp))
        = (fst (unmarshal (body_json resp) (SyncMember_zero z)))
            \<lparr>sm_Response := \<lparr>Response = Some resp\<rparr>\<rparr>)"
proof -
  have nil: "fst (DeleteResponder errorOf None) = \<lparr>Response = None\<rparr>
             \<and> fst (RefreshMemberSchemaResponder errorOf None) = \<lparr>Response = None\<rparr>"
    by (simp add: DeleteResponder_def RefreshMemberSchemaResponder_def Respond_def)
  have delete: "fst (DeleteResponder errorOf (Some resp))
       = \<lparr>Response = Some (if StatusCode resp \<in> {200, 202, 204} then resp
                            else resp\<lparr>Body := NopCloser (Body resp)\<rparr>)\<rparr>"
    unfolding DeleteResponder_Some by simp
  have refresh: "fst (RefreshMemberSchemaResponder errorOf (Some resp))
       = \<lparr>Response = Some (if StatusCode resp \<in> {200, 202} then resp
                            else resp\<lparr>Body := NopCloser (Body resp)\<rparr>)\<rparr>"
    unfolding RefreshMemberSchemaResponder_Some by simp
  have create: "fst (CreateOrUpdateResponder z unmarshal errorOf (Some resp))
        = (fst (unmarshal (body_json resp) (SyncMember_zero z)))
            \<lparr>sm_Response := \<lparr>Response = Some resp\<rparr>\<rparr>"
    if "StatusCode resp \<in> {200, 201, 202}" "b_read_err (Body resp) = None"
       "Trim_spaces (body_json resp) \<noteq> []"
    using that by (simp add: CreateOrUpdateResponder_accepted)
  from nil delete refresh create show ?thesis by blast
qed

theorem responders_results_witness:
  "StatusCode (sample_response 200 sample_member_json) \<in> {200, 201, 202}
   \<and> b_read_err (Body (sample_response 200 sample_member_json)) = None
   \<and> Trim_spaces (body_json (sample_response 200 sample_member_json)) \<noteq> []
   \<and> fst (CreateOrUpdateResponder None sample_unmarshal_member sample_errorOf
            (Some (sample_response 200 sample_member_json)))
       = \<lparr>sm_Response = \<lparr>Response = Some (sample_response 200 sample_member_json)\<rparr>,
          sm_fields = Some ''member1''\<rparr>
   \<and> fst (DeleteResponder sample_errorOf (Some (sample_response 200 sample_member_json)))
       = \<lparr>Response = Some (sample_response 200 sample_member_json)\<rparr>"
proof -
  let ?r = "sample_response 200 sample_member_json"
  have json: "body_json ?r = sample_member_json"
    by (simp add: body_json_def sample_response_def BOM_def sample_member_json_def)
  have nonblank: "Trim_spaces (body_json ?r) \<noteq> []"
    unfolding json by (simp add: Trim_spaces_def sample_member_json_def)
  have code: "StatusCode ?r \<in> {200, 201, 202}" "StatusCode ?r \<in> {200, 202, 204}"
    by (simp_all add: sample_response_def)
  have rd: "b_read_err (Body ?r) = None"
    by (simp add: sample_response_def)
  have decoded: "fst (sample_unmarshal_member (body_json ?r) (SyncMember_zero None))
                   = \<lparr>sm_Response = \<lparr>Response = None\<rparr>, sm_fields = Some ''member1''\<rparr>"
    unfolding json by (simp add: sample_unmarshal_member_def SyncMember_zero_def)
  note all = responders_results [of sample_errorOf ?r None sample_unmarshal_member]
  have c200: "StatusCode ?r = 200"
    by (simp add: sample_response_def)
  have create: "fst (CreateOrUpdateResponder None sample_unmarshal_member sample_errorOf (Some ?r))
       = \<lparr>sm_Response = \<lparr>Response = Some ?r\<rparr>, sm_fields = Some ''member1''\<rparr>"
    using all rd nonblank by (simp add: decoded c200)
  have delete: "fst (DeleteResponder sample_errorOf (Some ?r)) = \<lparr>Response = Some ?r\<rparr>"
    using all by (simp add: c200)
  from code(1) rd nonblank create delete show ?thesis by simp
qed

section \<open>Properties of the certificates client\<close>

lemma BeginCreateCertificate_resumed:
  assumes "bcc_ResumeToken (BeginCreateCertificateOptions_or_zero options) \<noteq> ''''"
  shows "BeginCreateCertificate rt m c certificateName policy options =
           \<lparr>outcome = Returns (runtime_NewPollerFromResumeToken rt
                        (bcc_ResumeToken (BeginCreateCertificateOptions_or_zero options))
                        (BeginCreateCertificate_handler (runtime_NewRequest rt) m c certificateName)),
            handler = BeginCreateCertificate_handler (runtime_NewRequest rt) m c certificateName,
            calls = [Call_NewPollerFromResumeToken
                       (bcc_ResumeToken (BeginCreateCertificateOptions_or_zero options))]\<rparr>"
  using assms by (simp add: BeginCreateCertificate_def Let_def)

lemma BeginDeleteCertificate_resumed:
  assumes "bdc_ResumeToken (BeginDeleteCertificateOptions_or_zero options) \<noteq> ''''"
  shows "BeginDeleteCertificate rt c certificateName options =
           \<lparr>outcome = Returns (runtime_NewPollerFromResumeToken rt
                        (bdc_ResumeToken (BeginDeleteCertificateOptions_or_zero options))
                        (BeginDeleteCertificate_handler c certificateName)),
            handler = BeginDeleteCertificate_handler c certificateName,
            calls = [Call_NewPollerFromResumeToken
                       (bdc_ResumeToken (BeginDeleteCertificateOptions_or_zero options))]\<rparr>"
  using assms by (simp add: BeginDeleteCertificate_def Let_def)

lemma BeginRecoverDeletedCertificate_resumed:
  assumes "brc_ResumeToken (BeginRecoverDeletedCertificateOptions_or_zero options) \<noteq> ''''"
  shows "BeginRecoverDeletedCertificate rt c certificateName options =
           \<lparr>outcome = Returns (runtime_NewPollerFromResumeToken rt
                        (brc_ResumeToken (BeginRecoverDeletedCertificateOptions_or_zero options))
                        (BeginRecoverDeletedCertificate_handler c certificateName)),
            handler = BeginRecoverDeletedCertificate_handler c certificateName,
            calls = [Call_NewPollerFromResumeToken
                       (brc_ResumeToken (BeginRecoverDeletedCertificateOptions_or_zero options))]\<rparr>"
  using assms by (simp add: BeginRecoverDeletedCertificate_def Let_def)

text \<open>
  What \<open>BeginCreateCertificate\<close> does without a resume token once the initiating request
  has succeeded and left the raw response \<open>raw\<close>.
\<close>

lemma BeginCreateCertificate_started:
  assumes token: "bcc_ResumeToken (BeginCreateCertificateOptions_or_zero options) = ''''"
    and sent: "gen_CreateCertificate (genClient c) (vaultURL c) certificateName
                 (CertificateCreateParameters m policy (BeginCreateCertificateOptions_or_zero options))
               = (Some raw, createResp, None)"
  shows "BeginCreateCertificate rt m c certificateName policy options =
     (let h0 = BeginCreateCertificate_handler (runtime_NewRequest rt) m c certificateName;
          created = [Call_CreateCertificate (vaultURL c) certificateName
                       (CertificateCreateParameters m policy
                          (BeginCreateCertificateOptions_or_zero options))];
          pollURL = Header_Get (Header raw) ''Location''
      in if pollURL = '''' then
           \<lparr>outcome = Returns (None, Some (Error ''missing Location header'')),
            handler = h0, calls = created\<rparr>
         else
           (case gcr_Status createResp of
              None \<Rightarrow>
                \<lparr>outcome = Panics NilPointerDereference,
                 handler = h0\<lparr>create_PollURL := pollURL\<rparr>, calls = created\<rparr>
            | Some st \<Rightarrow>
                \<lparr>outcome = Returns (runtime_NewPoller rt (Some raw)
                             (h0\<lparr>create_PollURL := pollURL, create_Status := st\<rparr>)),
                 handler = h0\<lparr>create_PollURL := pollURL, create_Status := st\<rparr>,
                 calls = created @ [Call_NewPoller (Some raw)]\<rparr>))"
  using token sent
  by (simp add: BeginCreateCertificate_def Let_def split: option.splits)

lemma Header_Get_absent: "h key = None \<Longrightarrow> Header_Get h key = ''''"
  by (simp add: Header_Get_def)

text \<open>
  C1. When the options of \<open>BeginCreateCertificate\<close>, \<open>BeginDeleteCertificate\<close> or
  \<open>BeginRecoverDeletedCertificate\<close> carry a resume token that is not empty, the operation
  returns what \<open>NewPollerFromResumeToken\<close> makes of the token and the handler of its
  kind, and that call is the only one it makes: the initiating request
  (\<open>CreateCertificate\<close>, \<open>DeleteCertificate\<close>, \<open>RecoverDeletedCertificate\<close>) is not sent.
\<close>

theorem resume_token_skips_initiating_request:
  "(bcc_ResumeToken (BeginCreateCertificateOptions_or_zero co) \<noteq> '''' \<longrightarrow>
      outcome (BeginCreateCertificate rtc m c certificateName policy co)
        = Returns (runtime_NewPollerFromResumeToken rtc
                     (bcc_ResumeToken (BeginCreateCertificateOptions_or_zero co))
                     (BeginCreateCertificate_handler (runtime_NewRequest rtc) m c certificateName))
      \<and> calls (BeginCreateCertificate rtc m c certificateName policy co)
          = [Call_NewPollerFromResumeToken (bcc_ResumeToken (BeginCreateCertificateOptions_or_zero co))]
      \<and> (\<forall>v n p. Call_CreateCertificate v n p
                   \<notin> set (calls (BeginCreateCertificate rtc m c certificateName policy co))))
   \<and> (bdc_ResumeToken (BeginDeleteCertificateOptions_or_zero dopts) \<noteq> '''' \<longrightarrow>
      outcome (BeginDeleteCertificate rtd c certificateName dopts)
        = Returns (runtime_NewPollerFromResumeToken rtd
                     (bdc_ResumeToken (BeginDeleteCertificateOptions_or_zero dopts))
                     (BeginDeleteCertificate_handler c certificateName))
      \<and> calls (BeginDeleteCertificate rtd c certificateName dopts)
          = [Call_NewPollerFromResumeToken (bdc_ResumeToken (BeginDeleteCertificateOptions_or_zero dopts))]
      \<and> (\<forall>v n. Call_DeleteCertificate v n
                 \<notin> set (calls (BeginDeleteCertificate rtd c certificateName dopts))))
   \<and> (brc_ResumeToken (BeginRecoverDeletedCertificateOptions_or_zero ropts) \<noteq> '''' \<longrightarrow>
      outcome (BeginRecoverDeletedCertificate rtr c certificateName ropts)
        = Returns (runtime_NewPollerFromResumeToken rtr
                     (brc_ResumeToken (BeginRecoverDeletedCertificateOptions_or_zero ropts))
                     (BeginRecoverDeletedCertificate_handler c certificateName))
      \<and> calls (BeginRecoverDeletedCertificate rtr c certificateName ropts)
          = [Call_NewPollerFromResumeToken
               (brc_ResumeToken (BeginRecoverDeletedCertificateOptions_or_zero ropts))]
      \<and> (\<forall>v n. Call_RecoverDeletedCertificate v n
                 \<notin> set (calls (BeginRecoverDeletedCertificate rtr c certificateName ropts))))"
proof (intro conjI impI)
  assume "bcc_ResumeToken (BeginCreateCertificateOptions_or_zero co) \<noteq> ''''"
  note r = BeginCreateCertificate_resumed [OF this, of rtc m c certificateName policy]
  show "outcome (BeginCreateCertificate rtc m c certificateName policy co)
        = Returns (runtime_NewPollerFromResumeToken rtc
                     (bcc_ResumeToken (BeginCreateCertificateOptions_or_zero co))
                     (BeginCreateCertificate_handler (runtime_NewRequest rtc) m c certificateName))"
    by (simp add: r)
  show "calls (BeginCreateCertificate rtc m c certificateName policy co)
          = [Call_NewPollerFromResumeToken (bcc_ResumeToken (BeginCreateCertificateOptions_or_zero co))]"
    by (simp add: r)
  show "\<forall>v n p. Call_CreateCertificate v n p
                   \<notin> set (calls (BeginCreateCertificate rtc m c certificateName policy co))"
    by (simp add: r)
next
  assume "bdc_ResumeToken (BeginDeleteCertificateOptions_or_zero dopts) \<noteq> ''''"
  note r = BeginDeleteCertificate_resumed [OF this, of rtd c certificateName]
  show "outcome (BeginDeleteCertificate rtd c certificateName dopts)
        = Returns (runtime_NewPollerFromResumeToken rtd
                     (bdc_ResumeToken (BeginDeleteCertificateOptions_or_zero dopts))
                     (BeginDeleteCertificate_handler c certificateName))"
    by (simp add: r)
  show "calls (BeginDeleteCertificate rtd c certificateName dopts)
          = [Call_NewPollerFromResumeToken (bdc_ResumeToken (BeginDeleteCertificateOptions_or_zero dopts))]"
    by (simp add: r)
  show "\<forall>v n. Call_DeleteCertificate v n
                 \<notin> set (calls (BeginDeleteCertificate rtd c certificateName dopts))"
    by (simp add: r)
next
  assume "brc_ResumeToken (BeginRecoverDeletedCertificateOptions_or_zero ropts) \<noteq> ''''"
  note r = BeginRecoverDeletedCertificate_resumed [OF this, of rtr c certificateName]
  show "outcome (BeginRecoverDeletedCertificate rtr c certificateName ropts)
        = Returns (runtime_NewPollerFromResumeToken rtr
                     (brc_ResumeToken (BeginRecoverDeletedCertificateOptions_or_zero ropts))
                     (BeginRecoverDeletedCertificate_handler c certificateName))"
    by (simp add: r)
  show "calls (BeginRecoverDeletedCertificate rtr c certificateName ropts)
          = [Call_NewPollerFromResumeToken
               (brc_ResumeToken (BeginRecoverDeletedCertificateOptions_or_zero ropts))]"
    by (simp add: r)
  show "\<forall>v n. Call_RecoverDeletedCertificate v n
                 \<notin> set (calls (BeginRecoverDeletedCertificate rtr c certificateName ropts))"
    by (simp add: r)
qed

theorem resume_token_skips_initiating_request_witness:
  "bcc_ResumeToken (BeginCreateCertificateOptions_or_zero (Some (sample_create_options ''t1''))) \<noteq> ''''
   \<and> outcome (BeginCreateCertificate sample_runtime sample_models
                (sample_Client (Some (sample_located 202 ''/op/1'')) (Some ''inProgress''))
                ''cert'' () (Some (sample_create_options ''t1'')))
       = Returns (Some ''resumed from t1'', None)
   \<and> calls (BeginCreateCertificate sample_runtime sample_models
              (sample_Client (Some (sample_located 202 ''/op/1'')) (Some ''inProgress''))
              ''cert'' () (Some (sample_create_options ''t1'')))
       = [Call_NewPollerFromResumeToken ''t1'']
   \<and> bdc_ResumeToken (BeginDeleteCertificateOptions_or_zero (Some \<lparr>bdc_ResumeToken = ''t2''\<rparr>)) \<noteq> ''''
   \<and> calls (BeginDeleteCertificate sample_runtime
              (sample_Client (Some (sample_located 202 ''/op/1'')) (Some ''inProgress''))
              ''cert'' (Some \<lparr>bdc_ResumeToken = ''t2''\<rparr>))
       = [Call_NewPollerFromResumeToken ''t2'']
   \<and> brc_ResumeToken
       (BeginRecoverDeletedCertificateOptions_or_zero (Some \<lparr>brc_ResumeToken = ''t3''\<rparr>)) \<noteq> ''''
   \<and> calls (BeginRecoverDeletedCertificate sample_runtime
              (sample_Client (Some (sample_located 202 ''/op/1'')) (Some ''inProgress''))
              ''cert'' (Some \<lparr>brc_ResumeToken = ''t3''\<rparr>))
       = [Call_NewPollerFromResumeToken ''t3'']"
  using resume_token_skips_initiating_request
    [of "Some (sample_create_options ''t1'')" sample_runtime sample_models
        "sample_Client (Some (sample_located 202 ''/op/1'')) (Some ''inProgress'')" "''cert''" "()"
        "Some \<lparr>bdc_ResumeToken = ''t2''\<rparr>" sample_runtime
        "Some \<lparr>brc_ResumeToken = ''t3''\<rparr>" sample_runtime]
  by (simp add: BeginCreateCertificateOptions_or_zero_def BeginDeleteCertificateOptions_or_zero_def
      BeginRecoverDeletedCertificateOptions_or_zero_def sample_create_options_def
      sample_runtime_def)

text \<open>
  C3. When \<open>BeginCreateCertificate\<close> is called without a resume token and the initiating
  \<open>CreateCertificate\<close> request succeeds, leaving the raw response \<open>raw\<close>: if \<open>raw\<close> has a
  \<open>Location\<close> header that is not empty, the poll URL of the handler is its value, and
  the handler given to \<open>NewPoller\<close> (when the response has a status field) is that handler;
  if the header is absent (or empty), the operation returns the error
  \<open>missing Location header\<close> and no poller, without calling \<open>NewPoller\<close>.
\<close>

theorem create_poll_url_is_Location:
  assumes "bcc_ResumeToken (BeginCreateCertificateOptions_or_zero options) = ''''"
    and "gen_CreateCertificate (genClient c) (vaultURL c) certificateName
           (CertificateCreateParameters m policy (BeginCreateCertificateOptions_or_zero options))
         = (Some raw, createResp, None)"
  shows "(Header_Get (Header raw) ''Location'' \<noteq> '''' \<longrightarrow>
            create_PollURL (handler (BeginCreateCertificate rt m c certificateName policy options))
              = Header_Get (Header raw) ''Location''
            \<and> (\<forall>st. gcr_Status createResp = Some st \<longrightarrow>
                  outcome (BeginCreateCertificate rt m c certificateName policy options)
                    = Returns (runtime_NewPoller rt (Some raw)
                        (handler (BeginCreateCertificate rt m c certificateName policy options)))))
         \<and> (Header raw ''Location'' = None \<or> Header_Get (Header raw) ''Location'' = '''' \<longrightarrow>
            outcome (BeginCreateCertificate rt m c certificateName policy options)
              = Returns (None, Some (Error ''missing Location header''))
            \<and> calls (BeginCreateCertificate rt m c certificateName policy options)
                = [Call_CreateCertificate (vaultURL c) certificateName
                     (CertificateCreateParameters m policy
                        (BeginCreateCertificateOptions_or_zero options))])"
proof -
  note r = BeginCreateCertificate_started [OF assms, of rt]
  have present: "create_PollURL (handler (BeginCreateCertificate rt m c certificateName policy options))
              = Header_Get (Header raw) ''Location''"
    if "Header_Get (Header raw) ''Location'' \<noteq> ''''"
    using that by (simp add: r Let_def split: option.splits)
  have built: "outcome (BeginCreateCertificate rt m c certificateName policy options)
                    = Returns (runtime_NewPoller rt (Some raw)
                        (handler (BeginCreateCertificate rt m c certificateName policy options)))"
    if "Header_Get (Header raw) ''Location'' \<noteq> ''''" "gcr_Status createResp = Some st" for st
    using that by (simp add: r Let_def)
  have empty: "outcome (BeginCreateCertificate rt m c certificateName policy options)
              = Returns (None, Some (Error ''missing Location header''))
            \<and> calls (BeginCreateCertificate rt m c certificateName policy options)
                = [Call_CreateCertificate (vaultURL c) certificateName
                     (CertificateCreateParameters m policy
                        (BeginCreateCertificateOptions_or_zero options))]"
    if "Header_Get (Header raw) ''Location'' = ''''"
    using that by (simp add: r Let_def)
  have absent: "Header_Get (Header raw) ''Location'' = ''''" if "Header raw ''Location'' = None"
    using that by (rule Header_Get_absent)
  from present built empty absent show ?thesis by blast
qed

theorem create_poll_url_is_Location_witness:
  "Header_Get (Header (sample_located 202 ''/op/1'')) ''Location'' \<noteq> ''''
   \<and> create_PollURL (handler (BeginCreateCertificate sample_runtime sample_models
        (sample_Client (Some (sample_located 202 ''/op/1'')) (Some ''inProgress''))
        ''cert'' () None)) = ''/op/1''
   \<and> outcome (BeginCreateCertificate sample_runtime sample_models
        (sample_Client (Some (sample_located 202 ''/op/1'')) (Some ''inProgress''))
        ''cert'' () None) = Returns (Some ''poller'', None)"
proof -
  let ?c = "sample_Client (Some (sample_located 202 ''/op/1'')) (Some ''inProgress'')"
  have token: "bcc_ResumeToken (BeginCreateCertificateOptions_or_zero None) = ''''"
    by (simp add: BeginCreateCertificateOptions_or_zero_def)
  have sent: "gen_CreateCertificate (genClient ?c) (vaultURL ?c) ''cert''
           (CertificateCreateParameters sample_models () (BeginCreateCertificateOptions_or_zero None))
         = (Some (sample_located 202 ''/op/1''), \<lparr>gcr_Status = Some ''inProgress''\<rparr>, None)"
    by (simp add: sample_Client_def sample_genClient_def)
  have loc: "Header_Get (Header (sample_located 202 ''/op/1'')) ''Location'' = ''/op/1''"
    by (simp add: Header_Get_def sample_located_def)
  show ?thesis
    using create_poll_url_is_Location [OF token sent, of sample_runtime]
    by (simp add: loc sample_runtime_def)
qed




text \<open>The closures of a handler are the ones its operation built, on every path.\<close>

lemma BeginCreateCertificate_closures:
  "create_poll (handler (BeginCreateCertificate rt m c certificateName policy options))
     = BeginCreateCertificate_poll (runtime_NewRequest rt) c
   \<and> create_result (handler (BeginCreateCertificate rt m c certificateName policy options))
     = BeginCreateCertificate_result m c certificateName"
  by (simp add: BeginCreateCertificate_def BeginCreateCertificate_handler_def Let_def
      split: prod.splits option.splits)

lemma BeginDeleteCertificate_handler_kept:
  "handler (BeginDeleteCertificate rt c certificateName options)
     = BeginDeleteCertificate_handler c certificateName"
  by (simp add: BeginDeleteCertificate_def Let_def split: prod.splits option.splits)

lemma BeginRecoverDeletedCertificate_handler_kept:
  "handler (BeginRecoverDeletedCertificate rt c certificateName options)
     = BeginRecoverDeletedCertificate_handler c certificateName"
  by (simp add: BeginRecoverDeletedCertificate_def Let_def split: prod.splits option.splits)

text \<open>
  C5. The first poll target of each handler. After \<open>BeginCreateCertificate\<close> has started
  the operation on a response with a \<open>Location\<close> header, the poll URL of its handler is
  the value of that header, and the handler's \<open>poll\<close> on that URL builds a GET request
  for it and sends it. The \<open>poll\<close> of the handler of \<open>BeginDeleteCertificate\<close> builds
  the request of \<open>GetDeletedCertificate\<close> for the vault and the certificate name and
  sends it; the one of \<open>BeginRecoverDeletedCertificate\<close> does so with the request of
  \<open>GetCertificate\<close> for the vault, the certificate name and no version.
\<close>

theorem first_poll_targets:
  "(bcc_ResumeToken (BeginCreateCertificateOptions_or_zero co) = ''''
      \<and> gen_CreateCertificate (genClient c) (vaultURL c) certificateName
           (CertificateCreateParameters m policy (BeginCreateCertificateOptions_or_zero co))
         = (Some raw, createResp, None)
      \<and> Header_Get (Header raw) ''Location'' \<noteq> '''' \<longrightarrow>
    create_PollURL (handler (BeginCreateCertificate rtc m c certificateName policy co))
      = Header_Get (Header raw) ''Location''
    \<and> (\<forall>req. runtime_NewRequest rtc MethodGet (Header_Get (Header raw) ''Location'') = (req, None) \<longrightarrow>
          create_poll (handler (BeginCreateCertificate rtc m c certificateName policy co))
            (create_PollURL (handler (BeginCreateCertificate rtc m c certificateName policy co)))
          = (gen_Pipeline_Do (genClient c) req,
             [Call_NewRequest MethodGet (Header_Get (Header raw) ''Location''), Call_Do req])))
   \<and> (\<forall>req. gen_GetDeletedCertificateCreateRequest (genClient c) (vaultURL c) certificateName
              = (req, None) \<longrightarrow>
         delete_poll (handler (BeginDeleteCertificate rtd c certificateName dopts))
           = (gen_Pipeline_Do (genClient c) req,
              [Call_GetDeletedCertificateCreateRequest (vaultURL c) certificateName, Call_Do req]))
   \<and> (\<forall>req. gen_GetCertificateCreateRequest (genClient c) (vaultURL c) certificateName ''''
              = (req, None) \<longrightarrow>
         recover_poll (handler (BeginRecoverDeletedCertificate rtr c certificateName ropts))
           = (gen_Pipeline_Do (genClient c) req,
              [Call_GetCertificateCreateRequest (vaultURL c) certificateName '''', Call_Do req]))"
proof -
  have create:
    "create_PollURL (handler (BeginCreateCertificate rtc m c certificateName policy co))
       = Header_Get (Header raw) ''Location''"
    if "bcc_ResumeToken (BeginCreateCertificateOptions_or_zero co) = ''''"
      and "gen_CreateCertificate (genClient c) (vaultURL c) certificateName
             (CertificateCreateParameters m policy (BeginCreateCertificateOptions_or_zero co))
           = (Some raw, createResp, None)"
      and "Header_Get (Header raw) ''Location'' \<noteq> ''''"
    using that(3)
    by (simp add: BeginCreateCertificate_started [OF that(1) that(2)] Let_def split: option.splits)
  have create_polls:
    "create_poll (handler (BeginCreateCertificate rtc m c certificateName policy co)) url
       = (gen_Pipeline_Do (genClient c) req, [Call_NewRequest MethodGet url, Call_Do req])"
    if "runtime_NewRequest rtc MethodGet url = (req, None)" for url req
    using that by (simp add: BeginCreateCertificate_closures BeginCreateCertificate_poll_def)
  have delete:
    "delete_poll (handler (BeginDeleteCertificate rtd c certificateName dopts))
       = (gen_Pipeline_Do (genClient c) req,
          [Call_GetDeletedCertificateCreateRequest (vaultURL c) certificateName, Call_Do req])"
    if "gen_GetDeletedCertificateCreateRequest (genClient c) (vaultURL c) certificateName = (req, None)"
    for req
    using that
    by (simp add: BeginDeleteCertificate_handler_kept BeginDeleteCertificate_handler_def
        BeginDeleteCertificate_poll_def)
  have recover:
    "recover_poll (handler (BeginRecoverDeletedCertificate rtr c certificateName ropts))
       = (gen_Pipeline_Do (genClient c) req,
          [Call_GetCertificateCreateRequest (vaultURL c) certificateName '''', Call_Do req])"
    if "gen_GetCertificateCreateRequest (genClient c) (vaultURL c) certificateName '''' = (req, None)"
    for req
    using that
    by (simp add: BeginRecoverDeletedCertificate_handler_kept
        BeginRecoverDeletedCertificate_handler_def BeginRecoverDeletedCertificate_poll_def)
  show ?thesis
    using create create_polls delete recover by (intro conjI impI allI) simp_all
qed

theorem first_poll_targets_witness:
  "create_PollURL (handler (BeginCreateCertificate sample_runtime sample_models
      (sample_Client (Some (sample_located 202 ''/op/1'')) (Some ''inProgress'')) ''cert'' () None))
     = ''/op/1''
   \<and> snd (create_poll (handler (BeginCreateCertificate sample_runtime sample_models
             (sample_Client (Some (sample_located 202 ''/op/1'')) (Some ''inProgress'')) ''cert'' () None))
           ''/op/1'')
     = [Call_NewRequest ''GET'' ''/op/1'',
        Call_Do (Some \<lparr>req_method = ''GET'', req_url = ''/op/1''\<rparr>)]
   \<and> snd (delete_poll (handler (BeginDeleteCertificate sample_runtime
             (sample_Client (Some (sample_located 202 ''/op/1'')) (Some ''inProgress'')) ''cert'' None)))
     = [Call_GetDeletedCertificateCreateRequest ''https://vault'' ''cert'',
        Call_Do (Some \<lparr>req_method = ''GET'', req_url = ''https://vault/deletedcertificates/cert''\<rparr>)]
   \<and> snd (recover_poll (handler (BeginRecoverDeletedCertificate sample_runtime
             (sample_Client (Some (sample_located 202 ''/op/1'')) (Some ''inProgress'')) ''cert'' None)))
     = [Call_GetCertificateCreateRequest ''https://vault'' ''cert'' '''',
        Call_Do (Some \<lparr>req_method = ''GET'', req_url = ''https://vault/certificates/cert/''\<rparr>)]"
proof -
  let ?c = "sample_Client (Some (sample_located 202 ''/op/1'')) (Some ''inProgress'')"
  have token: "bcc_ResumeToken (BeginCreateCertificateOptions_or_zero None) = ''''"
    by (simp add: BeginCreateCertificateOptions_or_zero_def)
  have sent: "gen_CreateCertificate (genClient ?c) (vaultURL ?c) ''cert''
           (CertificateCreateParameters sample_models () (BeginCreateCertificateOptions_or_zero None))
         = (Some (sample_located 202 ''/op/1''), \<lparr>gcr_Status = Some ''inProgress''\<rparr>, None)"
    by (simp add: sample_Client_def sample_genClient_def)
  have loc: "Header_Get (Header (sample_located 202 ''/op/1'')) ''Location'' = ''/op/1''"
    by (simp add: Header_Get_def sample_located_def)
  have get: "runtime_NewRequest sample_runtime ''GET'' ''/op/1''
               = (Some \<lparr>req_method = ''GET'', req_url = ''/op/1''\<rparr>, None)"
    by (simp add: sample_runtime_def)
  have deleted: "gen_GetDeletedCertificateCreateRequest (genClient ?c) ''https://vault'' ''cert''
      = (Some \<lparr>req_method = ''GET'', req_url = ''https://vault/deletedcertificates/cert''\<rparr>, None)"
    by (simp add: sample_Client_def sample_genClient_def)
  have recovered: "gen_GetCertificateCreateRequest (genClient ?c) ''https://vault'' ''cert'' ''''
      = (Some \<lparr>req_method = ''GET'', req_url = ''https://vault/certificates/cert/''\<rparr>, None)"
    by (simp add: sample_Client_def sample_genClient_def)
  have url: "vaultURL ?c = ''https://vault''"
    by (simp add: sample_Client_def)
  show ?thesis
    using first_poll_targets
      [of None ?c "''cert''" sample_models "()" "sample_located 202 ''/op/1''"
          "\<lparr>gcr_Status = Some ''inProgress''\<rparr>" sample_runtime sample_runtime None
          sample_runtime None]
      token sent
    by (simp add: loc get deleted recovered url MethodGet_def) (elim conjE, simp)
qed

text \<open>
  C6. The \<open>result\<close> function of the handler of \<open>BeginCreateCertificate\<close> makes one call,
  \<open>GetCertificate\<close> for the vault and the same certificate name (no version). When that
  succeeds it returns the response converted to \<open>CreateCertificateResponse\<close> and no
  error; when it fails it returns the zero \<open>CreateCertificateResponse\<close> and that error.
\<close>

theorem create_result_gets_certificate:
  "snd (create_result (handler (BeginCreateCertificate rt m c certificateName policy options)))
     = [Call_GetCertificate (vaultURL c) certificateName '''']
   \<and> (\<forall>resp made. GetCertificate m c certificateName None = ((resp, None), made) \<longrightarrow>
         fst (create_result (handler (BeginCreateCertificate rt m c certificateName policy options)))
           = (to_CreateCertificateResponse resp, None))
   \<and> (\<forall>resp err made. GetCertificate m c certificateName None = ((resp, Some err), made) \<longrightarrow>
         fst (create_result (handler (BeginCreateCertificate rt m c certificateName policy options)))
           = (CreateCertificateResponse CertificateWithPolicy_zero, Some err))
   \<and> (\<forall>g err. gen_GetCertificate (genClient c) (vaultURL c) certificateName '''' = (g, Some err) \<longrightarrow>
         fst (create_result (handler (BeginCreateCertificate rt m c certificateName policy options)))
           = (CreateCertificateResponse CertificateWithPolicy_zero, Some err))"
proof -
  let ?result = "create_result (handler (BeginCreateCertificate rt m c certificateName policy options))"
  have closure: "?result = BeginCreateCertificate_result m c certificateName"
    by (simp add: BeginCreateCertificate_closures)
  have made: "snd (GetCertificate m c certificateName None)
                = [Call_GetCertificate (vaultURL c) certificateName '''']"
    by (simp add: GetCertificate_def GetCertificateOptions_or_zero_def Let_def
        split: prod.splits option.splits)
  have calls: "snd ?result = [Call_GetCertificate (vaultURL c) certificateName '''']"
  proof -
    obtain resp e mk where g: "GetCertificate m c certificateName None = ((resp, e), mk)"
      by (cases "GetCertificate m c certificateName None") auto
    with made have "mk = [Call_GetCertificate (vaultURL c) certificateName '''']"
      by simp
    with g show ?thesis
      by (cases e) (simp_all add: closure BeginCreateCertificate_result_def)
  qed
  have ok: "fst ?result = (to_CreateCertificateResponse resp, None)"
    if "GetCertificate m c certificateName None = ((resp, None), made)" for resp made
    using that by (simp add: closure BeginCreateCertificate_result_def)
  have failed: "fst ?result = (CreateCertificateResponse CertificateWithPolicy_zero, Some err)"
    if "GetCertificate m c certificateName None = ((resp, Some err), made)" for resp err made
    using that by (simp add: closure BeginCreateCertificate_result_def)
  have gen_failed: "fst ?result = (CreateCertificateResponse CertificateWithPolicy_zero, Some err)"
    if "gen_GetCertificate (genClient c) (vaultURL c) certificateName '''' = (g, Some err)" for g err
    using that
    by (simp add: closure BeginCreateCertificate_result_def GetCertificate_def
        GetCertificateOptions_or_zero_def Let_def)
  from calls ok failed gen_failed show ?thesis by blast
qed

theorem create_result_gets_certificate_witness:
  "fst (create_result (handler (BeginCreateCertificate sample_runtime sample_models
          (sample_Client (Some (sample_located 202 ''/op/1'')) (Some ''inProgress'')) ''cert'' () None)))
     = (CreateCertificateResponse
          \<lparr>cwp_Properties = Some (), cwp_CER = Some [1, 2, 3], cwp_ContentType = None,
           cwp_ID = Some ''https://vault/certificates/cert'', cwp_KeyID = None,
           cwp_SecretID = None, cwp_Policy = Some ()\<rparr>,
        None)
   \<and> snd (create_result (handler (BeginCreateCertificate sample_runtime sample_models
          (sample_Client (Some (sample_located 202 ''/op/1'')) (Some ''inProgress'')) ''cert'' () None)))
     = [Call_GetCertificate ''https://vault'' ''cert'' '''']
   \<and> fst (create_result (handler (BeginCreateCertificate sample_runtime sample_models
          sample_Client_failing ''cert'' () None)))
     = (CreateCertificateResponse CertificateWithPolicy_zero, Some (Error ''CertificateNotFound''))"
proof -
  let ?c = "sample_Client (Some (sample_located 202 ''/op/1'')) (Some ''inProgress'')"
  let ?cwp = "\<lparr>cwp_Properties = Some (), cwp_CER = Some [1, 2, 3], cwp_ContentType = None,
           cwp_ID = Some ''https://vault/certificates/cert'', cwp_KeyID = None,
           cwp_SecretID = None, cwp_Policy = Some ()\<rparr>"
  have got: "GetCertificate sample_models ?c ''cert'' None
               = ((GetCertificateResponse ?cwp, None), [Call_GetCertificate ''https://vault'' ''cert'' ''''])"
    by (simp add: GetCertificate_def GetCertificateOptions_or_zero_def Let_def sample_Client_def
        sample_genClient_def sample_models_def)
  have url: "vaultURL ?c = ''https://vault''"
    by (simp add: sample_Client_def)
  have gen_failed: "gen_GetCertificate (genClient sample_Client_failing)
                      (vaultURL sample_Client_failing) ''cert'' ''''
                    = (generated_GetCertificateResponse_zero, Some (Error ''CertificateNotFound''))"
    by (simp add: sample_Client_failing_def)
  have first: "fst (create_result (handler (BeginCreateCertificate sample_runtime sample_models
                  ?c ''cert'' () None))) = (CreateCertificateResponse ?cwp, None)
               \<and> snd (create_result (handler (BeginCreateCertificate sample_runtime sample_models
                  ?c ''cert'' () None))) = [Call_GetCertificate ''https://vault'' ''cert'' '''']"
    using create_result_gets_certificate [of sample_runtime sample_models ?c "''cert''" "()" None] got
    by (simp add: url to_CreateCertificateResponse_def)
  have second: "fst (create_result (handler (BeginCreateCertificate sample_runtime sample_models
          sample_Client_failing ''cert'' () None)))
     = (CreateCertificateResponse CertificateWithPolicy_zero, Some (Error ''CertificateNotFound''))"
    using create_result_gets_certificate
      [of sample_runtime sample_models sample_Client_failing "''cert''" "()" None] gen_failed
    by simp
  from first second show ?thesis by simp
qed

section \<open>Properties of the polling engine\<close>

lemma Poll_Done: "Done p \<Longrightarrow> Poll maxBackoff h (p, sent) = ((p, sent), None)"
  by (simp add: Poll_def)

lemma Poll_times_Done: "Done p \<Longrightarrow> Poll_times maxBackoff h n (p, sent) = (p, sent)"
  by (induction n) (simp_all add: Poll_Done)

lemma Done_iff: "Done p \<longleftrightarrow> status (metadata p) \<in> {Succeeded, Failed, Canceled}"
  by (cases "status (metadata p)") (simp_all add: Done_def)

text \<open>
  A poller that is not done does poll: on the sample service one \<open>Poll\<close> sends one
  request and reaches Succeeded with the payload of the response.
\<close>

lemma Poll_sample_in_progress:
  "Poll 32 sample_Handler (sample_Poller InProgress, [])
     = (((sample_Poller Succeeded)\<lparr>cached := Some ''abc''\<rparr>, [PollRequest ''GET'' ''/op/1'']), None)"
  by (simp add: Poll_def Done_def sample_Poller_def sample_Handler_def sample_issue_def
      ExtractStatus_def body_status_def updateMetadata_def Let_def)

text \<open>
  C2. A poller whose status is terminal (Succeeded, Failed or Canceled) stays as it is
  under \<open>Poll\<close>: the call sends no request, returns no error and leaves the poller, its
  status with it, unchanged, so that \<open>Done\<close> holds after any number of calls. The same
  holds of the future, which is the poller at the result type of raw responses.
\<close>

theorem terminal_status_is_sticky:
  "(status (metadata p) \<in> {Succeeded, Failed, Canceled} \<longrightarrow>
      Poll maxBackoff h (p, sent) = ((p, sent), None)
      \<and> Poll_times maxBackoff h n (p, sent) = (p, sent)
      \<and> status (metadata (fst (Poll_times maxBackoff h n (p, sent)))) = status (metadata p)
      \<and> Done (fst (Poll_times maxBackoff h n (p, sent))))
   \<and> (status (metadata f) \<in> {Succeeded, Failed, Canceled} \<longrightarrow>
      Future_Poll maxBackoff issue (f, sent) = ((f, sent), None)
      \<and> Poll_times maxBackoff (Future_Handler issue) n (f, sent) = (f, sent)
      \<and> Done (fst (Poll_times maxBackoff (Future_Handler issue) n (f, sent))))"
proof (intro conjI impI)
  assume "status (metadata p) \<in> {Succeeded, Failed, Canceled}"
  then have d: "Done p" by (simp add: Done_iff)
  show "Poll maxBackoff h (p, sent) = ((p, sent), None)"
    using d by (rule Poll_Done)
  show "Poll_times maxBackoff h n (p, sent) = (p, sent)"
    using d by (rule Poll_times_Done)
  show "status (metadata (fst (Poll_times maxBackoff h n (p, sent)))) = status (metadata p)"
    by (simp add: Poll_times_Done [OF d])
  show "Done (fst (Poll_times maxBackoff h n (p, sent)))"
    using d by (simp add: Poll_times_Done)
next
  assume "status (metadata f) \<in> {Succeeded, Failed, Canceled}"
  then have d: "Done f" by (simp add: Done_iff)
  show "Future_Poll maxBackoff issue (f, sent) = ((f, sent), None)"
    using d by (simp add: Future_Poll_def Poll_Done)
  show "Poll_times maxBackoff (Future_Handler issue) n (f, sent) = (f, sent)"
    using d by (rule Poll_times_Done)
  show "Done (fst (Poll_times maxBackoff (Future_Handler issue) n (f, sent)))"
    using d by (simp add: Poll_times_Done)
qed

theorem terminal_status_is_sticky_witness:
  "status (metadata (sample_Poller Failed :: string Poller)) \<in> {Succeeded, Failed, Canceled}
   \<and> Poll_times 32 sample_Handler 3 (sample_Poller Failed, [PollRequest ''GET'' ''/op/1''])
       = (sample_Poller Failed, [PollRequest ''GET'' ''/op/1''])
   \<and> status (metadata (sample_Poller Canceled :: RawResponse Poller)) \<in> {Succeeded, Failed, Canceled}
   \<and> Future_Poll 32 sample_issue (sample_Poller Canceled, [PollRequest ''GET'' ''/op/1''])
       = ((sample_Poller Canceled, [PollRequest ''GET'' ''/op/1'']), None)"
proof -
  have p: "status (metadata (sample_Poller Failed :: string Poller)) \<in> {Succeeded, Failed, Canceled}"
    by (simp add: sample_Poller_def)
  have f: "status (metadata (sample_Poller Canceled :: RawResponse Poller))
             \<in> {Succeeded, Failed, Canceled}"
    by (simp add: sample_Poller_def)
  show ?thesis
    using terminal_status_is_sticky
      [where p = "sample_Poller Failed :: string Poller" and maxBackoff = 32
         and h = sample_Handler and sent = "[PollRequest ''GET'' ''/op/1'']" and n = 3
         and f = "sample_Poller Canceled" and issue = sample_issue]
      p f
    by blast
qed

end
